theory Spec2Isabelle
  imports Complex_Main "HOL-Library.Word" "HOL-Library.Stream"
begin

section \<open>Milo robot: the integrated control sketch\<close>

text \<open>
  A shallow embedding of \<^verbatim>\<open>milo_integrated.ino\<close>. The sketch is a single control loop
  over file-scope variables; here the variables, the output registers of the board and
  the inputs the sketch polls are the fields of one record, and every function of the
  sketch is a function from that record to the updated record.
\<close>

subsection \<open>Numbers of the target\<close>

text \<open>
  \<^verbatim>\<open>unsigned long\<close> is 32 bits wide and wraps around. A \<^verbatim>\<open>float\<close> is a number, an
  infinity or a NaN; an ordered comparison with a NaN is false. The finite values are
  embedded in the reals, which keeps every comparison exact. Arithmetic on floats rounds:
  the rounding of an exact result to the format, the result of converting a float that an
  integer type cannot hold, and the number parser \<^verbatim>\<open>String::toFloat\<close> belong to the board
  and its core library, and are taken as the fields of a \<open>platform\<close>.
\<close>

type_synonym ulong = "32 word"

datatype float = Finite real | PosInf | NegInf | NaN

record platform =
  round_float :: "real \<Rightarrow> float"
  undef_int :: "float \<Rightarrow> int"
  undef_long :: "float \<Rightarrow> int"
  toFloat :: "string \<Rightarrow> float"

text \<open>
  \<^verbatim>\<open>f < c\<close> and \<^verbatim>\<open>f >= c\<close> for a float \<open>f\<close> and a literal \<open>c\<close>. The literals of the
  sketch are the integers 30 to 330, which are floats, and 0.15, which is not; no single
  precision float lies between 0.15 and the value the compiler gives the literal, so on
  floats the comparison with that value and the comparison with 0.15 agree.
\<close>

fun float_less :: "float \<Rightarrow> real \<Rightarrow> bool" where
  "float_less (Finite x) c = (x < c)"
| "float_less NegInf c = True"
| "float_less PosInf c = False"
| "float_less NaN c = False"

fun float_ge :: "float \<Rightarrow> real \<Rightarrow> bool" where
  "float_ge (Finite x) c = (c \<le> x)"
| "float_ge PosInf c = True"
| "float_ge NegInf c = False"
| "float_ge NaN c = False"

text \<open>Conversion of a real to an integer drops the fraction (rounds towards zero).\<close>

definition trunc :: "real \<Rightarrow> int" where
  "trunc x = (if 0 \<le> x then \<lfloor>x\<rfloor> else \<lceil>x\<rceil>)"

text \<open>
  \<^verbatim>\<open>(int) f\<close>: defined when the truncated value fits the type. The range is that of a
  16-bit \<^verbatim>\<open>int\<close>, which every board has; outside it, and for infinities and NaN, the
  result is whatever the platform produces.
\<close>

definition float_to_int :: "platform \<Rightarrow> float \<Rightarrow> int" where
  "float_to_int P f =
     (case f of
        Finite x \<Rightarrow> if - 32769 < x \<and> x < 32768 then trunc x else undef_int P f
      | _ \<Rightarrow> undef_int P f)"

text \<open>\<^verbatim>\<open>(long) f\<close>, with the range of a 32-bit \<^verbatim>\<open>long\<close>.\<close>

definition float_to_long :: "platform \<Rightarrow> float \<Rightarrow> int" where
  "float_to_long P f =
     (case f of
        Finite x \<Rightarrow> if - 2147483649 < x \<and> x < 2147483648 then trunc x else undef_long P f
      | _ \<Rightarrow> undef_long P f)"

text \<open>
  \<^verbatim>\<open>(float) n\<close> for an integer \<open>n\<close>: integers below \<open>2^24\<close> in magnitude are floats
  themselves, larger ones are rounded.
\<close>

definition int_to_float :: "platform \<Rightarrow> int \<Rightarrow> float" where
  "int_to_float P n =
     (if \<bar>n\<bar> < 16777216 then Finite (real_of_int n) else round_float P (real_of_int n))"

text \<open>
  The product of two floats: on numbers the exact product is rounded; the special values
  follow IEEE 754.
\<close>

fun float_mul :: "platform \<Rightarrow> float \<Rightarrow> float \<Rightarrow> float" where
  "float_mul P (Finite x) (Finite y) = round_float P (x * y)"
| "float_mul P NaN b = NaN"
| "float_mul P a NaN = NaN"
| "float_mul P (Finite x) PosInf = (if x = 0 then NaN else if 0 < x then PosInf else NegInf)"
| "float_mul P (Finite x) NegInf = (if x = 0 then NaN else if 0 < x then NegInf else PosInf)"
| "float_mul P PosInf (Finite y) = (if y = 0 then NaN else if 0 < y then PosInf else NegInf)"
| "float_mul P NegInf (Finite y) = (if y = 0 then NaN else if 0 < y then NegInf else PosInf)"
| "float_mul P PosInf PosInf = PosInf"
| "float_mul P PosInf NegInf = NegInf"
| "float_mul P NegInf PosInf = NegInf"
| "float_mul P NegInf NegInf = PosInf"

text \<open>\<^verbatim>\<open>f / c\<close> for a float \<open>f\<close> and a positive literal \<open>c\<close>.\<close>

fun float_div :: "platform \<Rightarrow> float \<Rightarrow> real \<Rightarrow> float" where
  "float_div P (Finite x) c = round_float P (x / c)"
| "float_div P PosInf c = PosInf"
| "float_div P NegInf c = NegInf"
| "float_div P NaN c = NaN"

subsection \<open>Constants of the sketch\<close>

definition IN1 :: nat where "IN1 = 8"    \<comment> \<open>Left motor direction pin 1\<close>
definition IN2 :: nat where "IN2 = 9"    \<comment> \<open>Left motor direction pin 2\<close>
definition IN3 :: nat where "IN3 = 10"   \<comment> \<open>Right motor direction pin 1\<close>
definition IN4 :: nat where "IN4 = 11"   \<comment> \<open>Right motor direction pin 2\<close>
definition ENA :: nat where "ENA = 5"    \<comment> \<open>Left motor speed control (PWM)\<close>
definition ENB :: nat where "ENB = 6"    \<comment> \<open>Right motor speed control (PWM)\<close>

definition pingPin :: nat where "pingPin = 7"

definition maxSpeed :: int where "maxSpeed = 180"
definition autoFollowSpeed :: int where "autoFollowSpeed = 160"
definition testSpeed :: int where "testSpeed = 100"
definition bluetoothTimeout :: ulong where "bluetoothTimeout = 300"
definition autoFollowDelay :: nat where "autoFollowDelay = 200"

datatype RobotMode = MODE_BLUETOOTH | MODE_AUTO_FOLLOW | MODE_TEST

subsection \<open>State\<close>

datatype level = LOW | HIGH

datatype pin_mode = INPUT | OUTPUT

text \<open>The calls the sketch makes into the board, in the order it makes them.\<close>

datatype hal_call =
    PinMode nat pin_mode
  | DigitalWrite nat level
  | AnalogWrite nat int
  | DelayMicroseconds nat
  | Delay nat
  | SerialPrint string
  | SerialPrintln string
  | SerialPrintFloat float
  | SerialPrintlnFloat float
  | SerialPrintLong int
  | SerialBegin nat
  | Serial1Begin nat

text \<open>
  The file-scope variables of the sketch, under their names; the output registers
  (\<open>pins\<close>: the level last written to a digital pin, \<open>pwm\<close>: the duty last written);
  the log of calls; and the inputs the sketch polls: the readings \<^verbatim>\<open>millis()\<close> will
  return, the pulse widths \<^verbatim>\<open>pulseIn\<close> will return (0 for a timeout), and the bytes
  waiting on the two serial ports.
\<close>

record robot =
  currentMode :: RobotMode
  lastCommandTime :: ulong
  inputLine :: string
  testStartTime :: ulong
  testPhase :: int
  testRunning :: bool
  pins :: "nat \<Rightarrow> level"
  pwm :: "nat \<Rightarrow> int"
  calls :: "hal_call list"
  clock :: "ulong stream"
  echo :: "ulong stream"
  serial_rx :: string
  serial1_rx :: string

subsection \<open>Board and core library\<close>

definition pinMode :: "nat \<Rightarrow> pin_mode \<Rightarrow> robot \<Rightarrow> robot" where
  "pinMode p m s = s\<lparr>calls := calls s @ [PinMode p m]\<rparr>"

definition digitalWrite :: "nat \<Rightarrow> level \<Rightarrow> robot \<Rightarrow> robot" where
  "digitalWrite p v s = s\<lparr>pins := (pins s)(p := v), calls := calls s @ [DigitalWrite p v]\<rparr>"

definition analogWrite :: "nat \<Rightarrow> int \<Rightarrow> robot \<Rightarrow> robot" where
  "analogWrite p v s = s\<lparr>pwm := (pwm s)(p := v), calls := calls s @ [AnalogWrite p v]\<rparr>"

definition delayMicroseconds :: "nat \<Rightarrow> robot \<Rightarrow> robot" where
  "delayMicroseconds us s = s\<lparr>calls := calls s @ [DelayMicroseconds us]\<rparr>"

definition delay :: "nat \<Rightarrow> robot \<Rightarrow> robot" where
  "delay ms s = s\<lparr>calls := calls s @ [Delay ms]\<rparr>"

definition millis :: "robot \<Rightarrow> ulong \<times> robot" where
  "millis s = (shd (clock s), s\<lparr>clock := stl (clock s)\<rparr>)"

definition pulseIn :: "nat \<Rightarrow> level \<Rightarrow> nat \<Rightarrow> robot \<Rightarrow> ulong \<times> robot" where
  "pulseIn p v timeout s = (shd (echo s), s\<lparr>echo := stl (echo s)\<rparr>)"

definition Serial_begin :: "nat \<Rightarrow> robot \<Rightarrow> robot" where
  "Serial_begin baud s = s\<lparr>calls := calls s @ [SerialBegin baud]\<rparr>"

definition Serial1_begin :: "nat \<Rightarrow> robot \<Rightarrow> robot" where
  "Serial1_begin baud s = s\<lparr>calls := calls s @ [Serial1Begin baud]\<rparr>"

definition Serial_print :: "string \<Rightarrow> robot \<Rightarrow> robot" where
  "Serial_print x s = s\<lparr>calls := calls s @ [SerialPrint x]\<rparr>"

definition Serial_println :: "string \<Rightarrow> robot \<Rightarrow> robot" where
  "Serial_println x s = s\<lparr>calls := calls s @ [SerialPrintln x]\<rparr>"

definition Serial_print_float :: "float \<Rightarrow> robot \<Rightarrow> robot" where
  "Serial_print_float x s = s\<lparr>calls := calls s @ [SerialPrintFloat x]\<rparr>"

definition Serial_println_float :: "float \<Rightarrow> robot \<Rightarrow> robot" where
  "Serial_println_float x s = s\<lparr>calls := calls s @ [SerialPrintlnFloat x]\<rparr>"

definition Serial_print_long :: "int \<Rightarrow> robot \<Rightarrow> robot" where
  "Serial_print_long x s = s\<lparr>calls := calls s @ [SerialPrintLong x]\<rparr>"

definition Serial_available :: "robot \<Rightarrow> bool" where
  "Serial_available s = (serial_rx s \<noteq> [])"

definition Serial1_available :: "robot \<Rightarrow> bool" where
  "Serial1_available s = (serial1_rx s \<noteq> [])"

text \<open>
  \<^verbatim>\<open>Serial.readStringUntil(t)\<close> takes bytes up to the first \<open>t\<close>, which it consumes and
  does not return; with no \<open>t\<close> among the waiting bytes it returns them all (after its
  timeout).
\<close>

definition Serial_readStringUntil :: "char \<Rightarrow> robot \<Rightarrow> string \<times> robot" where
  "Serial_readStringUntil t s =
     (takeWhile (\<lambda>c. c \<noteq> t) (serial_rx s),
      s\<lparr>serial_rx := drop 1 (dropWhile (\<lambda>c. c \<noteq> t) (serial_rx s))\<rparr>)"

text \<open>
  \<^verbatim>\<open>Serial1.read()\<close> takes the first waiting byte; with none waiting it returns \<open>-1\<close>,
  which as a \<^verbatim>\<open>char\<close> is the byte \<open>0xFF\<close>.
\<close>

definition Serial1_read :: "robot \<Rightarrow> char \<times> robot" where
  "Serial1_read s =
     (case serial1_rx s of
        [] \<Rightarrow> (CHR 0xFF, s)
      | c # cs \<Rightarrow> (c, s\<lparr>serial1_rx := cs\<rparr>))"

subsection \<open>The String class\<close>

text \<open>A \<^verbatim>\<open>String\<close> is the list of its characters; the lines of the sketch hold no NUL.\<close>

definition isspace :: "char \<Rightarrow> bool" where
  "isspace c = (c \<in> {CHR 0x20, CHR 0x09, CHR 0x0A, CHR 0x0B, CHR 0x0C, CHR 0x0D})"

definition tolower :: "char \<Rightarrow> char" where
  "tolower c =
     (let n = (of_char c :: nat) in if 65 \<le> n \<and> n \<le> 90 then char_of (n + 32) else c)"

definition trim :: "string \<Rightarrow> string" where
  "trim xs = rev (dropWhile isspace (rev (dropWhile isspace xs)))"

definition toLowerCase :: "string \<Rightarrow> string" where
  "toLowerCase xs = map tolower xs"

definition startsWith :: "string \<Rightarrow> string \<Rightarrow> bool" where
  "startsWith xs pre = (take (length pre) xs = pre)"

text \<open>\<^verbatim>\<open>indexOf(ch)\<close>: the index of the first \<open>ch\<close>, or \<open>-1\<close>.\<close>

definition indexOf :: "string \<Rightarrow> char \<Rightarrow> int" where
  "indexOf xs ch =
     (if ch \<in> set xs then int (length (takeWhile (\<lambda>c. c \<noteq> ch) xs)) else - 1)"

text \<open>\<^verbatim>\<open>substring(left, right)\<close> and \<^verbatim>\<open>substring(left)\<close>.\<close>

definition substring :: "string \<Rightarrow> nat \<Rightarrow> nat \<Rightarrow> string" where
  "substring xs left right =
     (let l = min left right; r = max left right
      in if length xs \<le> l then [] else take (min r (length xs) - l) (drop l xs))"

definition substring_from :: "string \<Rightarrow> nat \<Rightarrow> string" where
  "substring_from xs left = substring xs left (length xs)"

subsection \<open>Motor control functions\<close>

definition moveForward :: "int \<Rightarrow> robot \<Rightarrow> robot" where
  "moveForward spd s =
     (let s = digitalWrite IN1 HIGH s;
          s = digitalWrite IN2 LOW s;
          s = digitalWrite IN3 HIGH s;
          s = digitalWrite IN4 LOW s;
          s = analogWrite ENA spd s
      in analogWrite ENB spd s)"

definition moveBackward :: "int \<Rightarrow> robot \<Rightarrow> robot" where
  "moveBackward spd s =
     (let s = digitalWrite IN1 LOW s;
          s = digitalWrite IN2 HIGH s;
          s = digitalWrite IN3 LOW s;
          s = digitalWrite IN4 HIGH s;
          s = analogWrite ENA spd s
      in analogWrite ENB spd s)"

definition turnLeft :: "int \<Rightarrow> robot \<Rightarrow> robot" where
  "turnLeft spd s =
     (let s = digitalWrite IN1 LOW s;
          s = digitalWrite IN2 HIGH s;
          s = digitalWrite IN3 HIGH s;
          s = digitalWrite IN4 LOW s;
          s = analogWrite ENA spd s
      in analogWrite ENB spd s)"

definition turnRight :: "int \<Rightarrow> robot \<Rightarrow> robot" where
  "turnRight spd s =
     (let s = digitalWrite IN1 HIGH s;
          s = digitalWrite IN2 LOW s;
          s = digitalWrite IN3 LOW s;
          s = digitalWrite IN4 HIGH s;
          s = analogWrite ENA spd s
      in analogWrite ENB spd s)"

definition stopMoving :: "robot \<Rightarrow> robot" where
  "stopMoving s =
     (let s = digitalWrite IN1 LOW s;
          s = digitalWrite IN2 LOW s;
          s = digitalWrite IN3 LOW s;
          s = digitalWrite IN4 LOW s;
          s = analogWrite ENA 0 s
      in analogWrite ENB 0 s)"

subsection \<open>Ultrasonic sensor\<close>

definition getDistanceCM :: "platform \<Rightarrow> nat \<Rightarrow> robot \<Rightarrow> int \<times> robot" where
  "getDistanceCM P pin s =
     (let s = pinMode pin OUTPUT s;
          s = digitalWrite pin LOW s;
          s = delayMicroseconds 2 s;
          s = digitalWrite pin HIGH s;
          s = delayMicroseconds 5 s;
          s = digitalWrite pin LOW s;
          s = pinMode pin INPUT s;
          (pulse, s) = pulseIn pin HIGH 30000 s;
          duration = sint pulse
      in if duration = 0 then (999, s)
         else (float_to_long P (float_div P (int_to_float P duration) 58), s))"

subsection \<open>Mode switching\<close>

definition switchMode :: "RobotMode \<Rightarrow> robot \<Rightarrow> robot" where
  "switchMode newMode s =
     (if currentMode s \<noteq> newMode then
        let s = stopMoving s;
            s = s\<lparr>currentMode := newMode\<rparr>;
            s = s\<lparr>inputLine := ''''\<rparr>;
            s = s\<lparr>testRunning := False\<rparr>;
            s = s\<lparr>testPhase := 0\<rparr>;
            s = Serial_print ''Mode switched to: '' s
        in (case newMode of
              MODE_BLUETOOTH \<Rightarrow> Serial_println ''BLUETOOTH'' s
            | MODE_AUTO_FOLLOW \<Rightarrow> Serial_println ''AUTO_FOLLOW'' s
            | MODE_TEST \<Rightarrow>
                let s = Serial_println ''TEST'' s;
                    (t, s) = millis s;
                    s = s\<lparr>testStartTime := t\<rparr>
                in s\<lparr>testRunning := True\<rparr>)
      else s)"

text \<open>One turn of the loop of \<^verbatim>\<open>checkModeSwitch\<close>: read a line, normalise it, dispatch.\<close>

definition checkModeSwitch_body :: "robot \<Rightarrow> robot" where
  "checkModeSwitch_body s =
     (let (command, s) = Serial_readStringUntil (CHR 0x0A) s;
          command = trim command;
          command = toLowerCase command
      in if command = ''auto'' then switchMode MODE_AUTO_FOLLOW s
         else if command = ''bluetooth'' then switchMode MODE_BLUETOOTH s
         else if command = ''test'' then switchMode MODE_TEST s
         else s)"

function checkModeSwitch :: "robot \<Rightarrow> robot" where
  "checkModeSwitch s =
     (if Serial_available s then checkModeSwitch (checkModeSwitch_body s) else s)"
  by pat_completeness auto

text \<open>Every turn consumes at least one of the waiting bytes, so the loop ends.\<close>

termination checkModeSwitch
proof (relation "measure (\<lambda>s. length (serial_rx s))")
  show "wf (measure (\<lambda>s. length (serial_rx s)))" by simp
next
  fix s assume avail: "Serial_available s"
  have sw: "\<And>m r. serial_rx (switchMode m r) = serial_rx r"
    by (simp add: switchMode_def stopMoving_def digitalWrite_def analogWrite_def
        Serial_print_def Serial_println_def millis_def Let_def split: RobotMode.split)
  have "serial_rx (checkModeSwitch_body s) =
        drop 1 (dropWhile (\<lambda>c. c \<noteq> CHR 0x0A) (serial_rx s))"
    by (simp add: checkModeSwitch_body_def Serial_readStringUntil_def Let_def sw)
  moreover have "length (dropWhile (\<lambda>c. c \<noteq> CHR 0x0A) (serial_rx s)) \<le> length (serial_rx s)"
    by (rule length_dropWhile_le)
  moreover have "serial_rx s \<noteq> []"
    using avail by (simp add: Serial_available_def)
  ultimately show "(checkModeSwitch_body s, s) \<in> measure (\<lambda>s. length (serial_rx s))"
    by (cases "dropWhile (\<lambda>c. c \<noteq> CHR 0x0A) (serial_rx s)") auto
qed

declare checkModeSwitch.simps [simp del]

subsection \<open>Bluetooth control mode\<close>

definition controlMotors :: "platform \<Rightarrow> float \<Rightarrow> float \<Rightarrow> robot \<Rightarrow> robot" where
  "controlMotors P rot mag s =
     (if float_less mag 0.15 then stopMoving s
      else
        let speed = float_to_int P (float_mul P (int_to_float P maxSpeed) mag)
        in if float_ge rot 330 \<or> float_less rot 30 then turnRight speed s
           else if float_ge rot 30 \<and> float_less rot 150 then moveBackward speed s
           else if float_ge rot 150 \<and> float_less rot 210 then turnLeft speed s
           else if float_ge rot 210 \<and> float_less rot 330 then moveForward speed s
           else s)"

definition processJoystickCommand :: "platform \<Rightarrow> string \<Rightarrow> robot \<Rightarrow> robot" where
  "processJoystickCommand P cmd s =
     (if \<not> startsWith cmd ''J0:'' then s
      else
        let commaIndex = indexOf cmd (CHR '','')
        in if commaIndex = - 1 then s
           else
             let rotation = toFloat P (substring cmd 3 (nat commaIndex));
                 magnitude = toFloat P (substring_from cmd (nat (commaIndex + 1)));
                 s = Serial_print ''Angle = '' s;
                 s = Serial_print_float rotation s;
                 s = Serial_print ([CHR 0xC3, CHR 0x82, CHR 0xC2, CHR 0xB0] @ '', Magnitude = '') s;
                 s = Serial_println_float magnitude s;
                 (t, s) = millis s;
                 s = s\<lparr>lastCommandTime := t\<rparr>
             in controlMotors P rotation magnitude s)"

text \<open>One turn of the read loop of \<^verbatim>\<open>processBluetoothMode\<close>.\<close>

definition processBluetoothMode_body :: "platform \<Rightarrow> robot \<Rightarrow> robot" where
  "processBluetoothMode_body P s =
     (let (c, s) = Serial1_read s
      in if c = CHR 0x0A \<or> c = CHR 0x0D then
           let s = processJoystickCommand P (inputLine s) s
           in s\<lparr>inputLine := ''''\<rparr>
         else s\<lparr>inputLine := inputLine s @ [c]\<rparr>)"

function processBluetoothMode_read :: "platform \<Rightarrow> robot \<Rightarrow> robot" where
  "processBluetoothMode_read P s =
     (if Serial1_available s then processBluetoothMode_read P (processBluetoothMode_body P s)
      else s)"
  by pat_completeness auto

termination processBluetoothMode_read
proof (relation "measure (\<lambda>(P, s). length (serial1_rx s))")
  show "wf (measure (\<lambda>(P, s). length (serial1_rx s)))" by simp
next
  fix P :: platform and s :: robot
  assume avail: "Serial1_available s"
  have cm: "\<And>rot mag r. serial1_rx (controlMotors P rot mag r) = serial1_rx r"
    by (simp add: controlMotors_def stopMoving_def turnRight_def turnLeft_def moveForward_def
        moveBackward_def digitalWrite_def analogWrite_def Let_def)
  have pj: "\<And>cmd r. serial1_rx (processJoystickCommand P cmd r) = serial1_rx r"
    by (simp add: processJoystickCommand_def Serial_print_def Serial_println_float_def
        Serial_print_float_def millis_def Let_def cm)
  have "serial1_rx s \<noteq> []"
    using avail by (simp add: Serial1_available_def)
  then have "length (serial1_rx (processBluetoothMode_body P s)) < length (serial1_rx s)"
    by (cases "serial1_rx s")
      (simp_all add: processBluetoothMode_body_def Serial1_read_def Let_def pj)
  then show "((P, processBluetoothMode_body P s), (P, s))
      \<in> measure (\<lambda>(P, s). length (serial1_rx s))"
    by simp
qed

declare processBluetoothMode_read.simps [simp del]

definition processBluetoothMode :: "platform \<Rightarrow> robot \<Rightarrow> robot" where
  "processBluetoothMode P s =
     (let s = processBluetoothMode_read P s;
          (now, s) = millis s
      in if now - lastCommandTime s > bluetoothTimeout then stopMoving s else s)"

subsection \<open>Auto-follow mode\<close>

definition processAutoFollowMode :: "platform \<Rightarrow> robot \<Rightarrow> robot" where
  "processAutoFollowMode P s =
     (let (distance, s) = getDistanceCM P pingPin s;
          s = Serial_print ''Distance: '' s;
          s = Serial_print_long distance s;
          s = Serial_println '' cm'' s;
          s = (if distance > 60 then
                 let s = moveForward autoFollowSpeed s
                 in Serial_println ''Moving forward'' s
               else if distance < 25 then
                 let s = stopMoving s
                 in Serial_println ''Stopped (too close)'' s
               else
                 let s = stopMoving s
                 in Serial_println ''Stopped (maintaining distance)'' s)
      in delay autoFollowDelay s)"

subsection \<open>Test mode\<close>

definition processTestMode :: "robot \<Rightarrow> robot" where
  "processTestMode s =
     (let s = (if \<not> testRunning s then
                 let (t, s) = millis s;
                     s = s\<lparr>testStartTime := t\<rparr>;
                     s = s\<lparr>testRunning := True\<rparr>
                 in s\<lparr>testPhase := 0\<rparr>
               else s);
          (now, s) = millis s;
          elapsed = now - testStartTime s
      in if testPhase s = 0 then
           (if elapsed < 2000 then
              let s = moveForward testSpeed s in Serial_println ''Test: Moving forward'' s
            else if elapsed < 3000 then
              let s = stopMoving s in Serial_println ''Test: Stopped'' s
            else if elapsed < 5000 then
              let s = moveBackward testSpeed s in Serial_println ''Test: Moving backward'' s
            else if elapsed < 6000 then
              let s = stopMoving s in Serial_println ''Test: Stopped'' s
            else
              let s = s\<lparr>testPhase := 1\<rparr>;
                  (t, s) = millis s
              in s\<lparr>testStartTime := t\<rparr>)
         else if testPhase s = 1 then
           (if elapsed < 10000 then
              let s = turnLeft testSpeed s in Serial_println ''Test: Rotating (circle)'' s
            else if elapsed < 13000 then
              let s = stopMoving s in Serial_println ''Test: Stopped'' s
            else
              let s = s\<lparr>testPhase := 0\<rparr>;
                  (t, s) = millis s;
                  s = s\<lparr>testStartTime := t\<rparr>
              in Serial_println ''Test: Cycle restarted'' s)
         else s)"

subsection \<open>Setup and main loop\<close>

text \<open>
  The variables as their declarations initialise them, the output registers cleared, and
  the inputs as given.
\<close>

definition power_on :: "ulong stream \<Rightarrow> ulong stream \<Rightarrow> string \<Rightarrow> string \<Rightarrow> robot" where
  "power_on clk ech rx rx1 =
     \<lparr>currentMode = MODE_BLUETOOTH, lastCommandTime = 0, inputLine = '''',
      testStartTime = 0, testPhase = 0, testRunning = False,
      pins = (\<lambda>p. LOW), pwm = (\<lambda>p. 0), calls = [],
      clock = clk, echo = ech, serial_rx = rx, serial1_rx = rx1\<rparr>"

definition setup_fn :: "robot \<Rightarrow> robot" where
  "setup_fn s =
     (let s = pinMode IN1 OUTPUT s;
          s = pinMode IN2 OUTPUT s;
          s = pinMode IN3 OUTPUT s;
          s = pinMode IN4 OUTPUT s;
          s = pinMode ENA OUTPUT s;
          s = pinMode ENB OUTPUT s;
          s = pinMode pingPin OUTPUT s;
          s = Serial_begin 9600 s;
          s = Serial1_begin 9600 s;
          s = Serial_println ''Milo Robot - Integrated Control System'' s;
          s = Serial_println ''Mode: BLUETOOTH (default)'' s;
          s = Serial_println (''Commands: 'auto', 'bluetooth', 'test'' @ [CHR 0x27]) s
      in stopMoving s)"

definition loop :: "platform \<Rightarrow> robot \<Rightarrow> robot" where
  "loop P s =
     (let s = checkModeSwitch s
      in case currentMode s of
           MODE_BLUETOOTH \<Rightarrow> processBluetoothMode P s
         | MODE_AUTO_FOLLOW \<Rightarrow> processAutoFollowMode P s
         | MODE_TEST \<Rightarrow> processTestMode s)"

subsection \<open>Vocabulary of the properties\<close>

text \<open>The six writes of \<^verbatim>\<open>stopMoving\<close>, in order.\<close>

definition stop_writes :: "hal_call list" where
  "stop_writes =
     [DigitalWrite IN1 LOW, DigitalWrite IN2 LOW, DigitalWrite IN3 LOW, DigitalWrite IN4 LOW,
      AnalogWrite ENA 0, AnalogWrite ENB 0]"

text \<open>The text \<^verbatim>\<open>switchMode\<close> prints for a mode.\<close>

fun mode_name :: "RobotMode \<Rightarrow> string" where
  "mode_name MODE_BLUETOOTH = ''BLUETOOTH''"
| "mode_name MODE_AUTO_FOLLOW = ''AUTO_FOLLOW''"
| "mode_name MODE_TEST = ''TEST''"

text \<open>
  States and a platform for the examples. \<open>booted t\<close> is the robot after \<^verbatim>\<open>setup()\<close>,
  with nothing waiting on the serial ports, a clock that reads \<open>t\<close> and a sensor that
  hears no echo. \<open>demo_platform\<close> computes without rounding error and parses the
  numerals the examples use.
\<close>

definition booted :: "ulong \<Rightarrow> robot" where
  "booted t = setup_fn (power_on (sconst t) (sconst 0) [] [])"

definition demo_platform :: platform where
  "demo_platform =
     \<lparr>round_float = Finite, undef_int = (\<lambda>f. 0), undef_long = (\<lambda>f. 0),
      toFloat = (\<lambda>x. if x = ''45'' then Finite 45
                      else if x = ''0.5'' then Finite (1 / 2)
                      else Finite 0)\<rparr>"

text \<open>Both motors at rest: every direction pin low, both duties zero.\<close>

definition motors_stopped :: "robot \<Rightarrow> bool" where
  "motors_stopped s =
     (pins s IN1 = LOW \<and> pins s IN2 = LOW \<and> pins s IN3 = LOW \<and> pins s IN4 = LOW \<and>
      pwm s ENA = 0 \<and> pwm s ENB = 0)"

text \<open>
  The sketch labels the two motors twice, and not alike. The declarations of the pins
  (lines 13 to 16) call \<^verbatim>\<open>IN1\<close>, \<^verbatim>\<open>IN2\<close> the direction pins of the left motor and \<^verbatim>\<open>IN3\<close>,
  \<^verbatim>\<open>IN4\<close> those of the right motor; the comments beside the writes of \<^verbatim>\<open>turnLeft\<close> and
  \<^verbatim>\<open>turnRight\<close> (lines 314, 316, 324, 326) call \<^verbatim>\<open>IN1\<close>, \<^verbatim>\<open>IN2\<close> the right motor and
  \<^verbatim>\<open>IN3\<close>, \<^verbatim>\<open>IN4\<close> the left motor. Nothing in the sketch says how the motors are wired, so
  both labellings are kept, and a statement about the left or the right motor says which
  one it reads. \<^verbatim>\<open>moveForward\<close> writes high, low to either pair of pins and
  \<^verbatim>\<open>moveBackward\<close> low, high: these are the patterns that drive a motor forward and
  backward.
\<close>

datatype labelling = Declared | AtWrites

definition left_motor :: "labelling \<Rightarrow> robot \<Rightarrow> level \<times> level" where
  "left_motor l s =
     (case l of
        Declared \<Rightarrow> (pins s IN1, pins s IN2)
      | AtWrites \<Rightarrow> (pins s IN3, pins s IN4))"

definition right_motor :: "labelling \<Rightarrow> robot \<Rightarrow> level \<times> level" where
  "right_motor l s =
     (case l of
        Declared \<Rightarrow> (pins s IN3, pins s IN4)
      | AtWrites \<Rightarrow> (pins s IN1, pins s IN2))"

definition drive_forward :: "level \<times> level" where
  "drive_forward = (HIGH, LOW)"

definition drive_backward :: "level \<times> level" where
  "drive_backward = (LOW, HIGH)"

text \<open>The value of \<^verbatim>\<open>int speed = maxSpeed * mag\<close> in \<^verbatim>\<open>controlMotors\<close>.\<close>

definition joystick_speed :: "platform \<Rightarrow> float \<Rightarrow> int" where
  "joystick_speed P mag = float_to_int P (float_mul P (int_to_float P maxSpeed) mag)"

text \<open>
  What the properties need of the board's rounding: integers below \<open>2^24\<close> in magnitude
  are floats, and a rounded result is within one part in \<open>2^23\<close> of the exact one. Single
  precision arithmetic meets both.
\<close>

definition rounds_like_single :: "platform \<Rightarrow> bool" where
  "rounds_like_single P =
     ((\<forall>k::int. \<bar>k\<bar> < 16777216 \<longrightarrow> round_float P (real_of_int k) = Finite (real_of_int k)) \<and>
      (\<forall>x::real. 1 / 64 \<le> \<bar>x\<bar> \<and> \<bar>x\<bar> < 16777216 \<longrightarrow>
         (\<exists>y. round_float P x = Finite y \<and> \<bar>y - x\<bar> \<le> \<bar>x\<bar> / 8388608)))"

text \<open>
  Single precision itself: a real is rounded to 24 significant bits, to the nearest value
  and on a tie to the one with an even significand; below \<open>2^-126\<close> the spacing stays that
  of \<open>2^-126\<close>, and a result of magnitude \<open>2^128\<close> or more is an infinity.
\<close>

definition round_even :: "real \<Rightarrow> int" where
  "round_even y =
     (let n = \<lfloor>y\<rfloor>; d = y - real_of_int n
      in if d < 1 / 2 then n else if 1 / 2 < d then n + 1 else if even n then n else n + 1)"

definition round_single :: "real \<Rightarrow> float" where
  "round_single x =
     (if x = 0 then Finite 0
      else
        let e = max \<lfloor>log 2 \<bar>x\<bar>\<rfloor> (- 126);
            u = 2 powr (real_of_int e - 23);
            y = real_of_int (round_even (x / u)) * u
        in if 2 ^ 128 \<le> y then PosInf else if y \<le> - (2 ^ 128) then NegInf else Finite y)"

text \<open>A platform that rounds so; what it does outside the ranges plays no part.\<close>

definition single_platform :: platform where
  "single_platform =
     \<lparr>round_float = round_single, undef_int = (\<lambda>f. 0), undef_long = (\<lambda>f. 0),
      toFloat = (\<lambda>x. Finite 0)\<rparr>"

text \<open>The booted robot whose sensor will measure an echo of \<open>w\<close> microseconds.\<close>

definition hearing :: "ulong \<Rightarrow> robot" where
  "hearing w = setup_fn (power_on (sconst 0) (sconst w) [] [])"

text \<open>The three prints with which \<^verbatim>\<open>processAutoFollowMode\<close> reports a sample.\<close>

definition distance_logged :: "int \<Rightarrow> robot \<Rightarrow> robot" where
  "distance_logged d s =
     Serial_println '' cm'' (Serial_print_long d (Serial_print ''Distance: '' s))"

text \<open>The calls a function made: those of the result that the state before did not have.\<close>

definition new_calls :: "robot \<Rightarrow> robot \<Rightarrow> hal_call list" where
  "new_calls s s' = drop (length (calls s)) (calls s')"

text \<open>
  The state in which the test sequence runs in phase \<open>ph\<close> and the clock reads \<open>e\<close>
  milliseconds after the phase began.
\<close>

definition testing :: "int \<Rightarrow> ulong \<Rightarrow> robot" where
  "testing ph e =
     (switchMode MODE_TEST (booted 1000))\<lparr>testPhase := ph, clock := sconst (1000 + e)\<rparr>"

text \<open>
  The diagnostic channel as the specification describes it: the waiting bytes are cut into
  lines at line feeds (a last line needs no line feed), each line is trimmed and put in
  lower case, and three tokens name a mode.
\<close>

fun lines_from :: "string \<Rightarrow> string \<Rightarrow> string list" where
  "lines_from cur [] = (if cur = [] then [] else [cur])"
| "lines_from cur (c # cs) =
     (if c = CHR 0x0A then cur # lines_from [] cs else lines_from (cur @ [c]) cs)"

definition directive_mode :: "string \<Rightarrow> RobotMode option" where
  "directive_mode token =
     (if token = ''auto'' then Some MODE_AUTO_FOLLOW
      else if token = ''bluetooth'' then Some MODE_BLUETOOTH
      else if token = ''test'' then Some MODE_TEST
      else None)"

definition mode_directive :: "robot \<Rightarrow> string \<Rightarrow> robot" where
  "mode_directive s line =
     (case directive_mode (toLowerCase (trim line)) of
        Some m \<Rightarrow> switchMode m s
      | None \<Rightarrow> s)"

text \<open>The booted robot with the bytes \<open>rx\<close> waiting on the diagnostic port.\<close>

definition addressed :: "string \<Rightarrow> robot" where
  "addressed rx = setup_fn (power_on (sconst 0) (sconst 0) rx [])"

section \<open>Properties\<close>

lemmas pin_defs = IN1_def IN2_def IN3_def IN4_def ENA_def ENB_def pingPin_def

lemmas hal_defs = pinMode_def digitalWrite_def analogWrite_def delayMicroseconds_def delay_def
  millis_def pulseIn_def Serial_begin_def Serial1_begin_def Serial_print_def Serial_println_def
  Serial_print_float_def Serial_println_float_def Serial_print_long_def

lemmas motor_defs = moveForward_def moveBackward_def turnLeft_def turnRight_def stopMoving_def

lemmas example_defs = booted_def hearing_def testing_def addressed_def setup_fn_def power_on_def
  demo_platform_def

text \<open>The platform of the examples computes exactly, so it rounds like single precision.\<close>

lemma demo_platform_single: "rounds_like_single demo_platform"
  by (simp add: rounds_like_single_def demo_platform_def)

subsection \<open>Single precision\<close>

lemma round_even_close: "\<bar>real_of_int (round_even y) - y\<bar> \<le> 1 / 2"
  unfolding round_even_def Let_def by (auto; linarith)

lemma round_even_int: "round_even (real_of_int n) = n"
  by (simp add: round_even_def)

lemma round_single_unfold:
  assumes "x \<noteq> 0" and "\<lfloor>log 2 \<bar>x\<bar>\<rfloor> = e" and "- 126 \<le> e"
  shows "round_single x =
     (let u = 2 powr (real_of_int e - 23); y = real_of_int (round_even (x / u)) * u
      in if 2 ^ 128 \<le> y then PosInf else if y \<le> - (2 ^ 128) then NegInf else Finite y)"
  using assms by (simp add: round_single_def Let_def max_def)

text \<open>The product of 180 and the float nearest 0.35, which is \<open>11744051 / 2^25\<close>, rounds to 63.\<close>

lemma round_single_product: "round_single (180 * (11744051 / 33554432)) = Finite 63"
proof -
  let ?x = "180 * (11744051 / 33554432) :: real"
  have e: "\<lfloor>log 2 \<bar>?x\<bar>\<rfloor> = 5"
    by (subst floor_log_eq_powr_iff) simp_all
  have u: "2 powr (real_of_int 5 - 23) = (1 / 262144 :: real)"
    by (simp add: powr_minus flip: powr_numeral)
  have r: "round_even (?x / (1 / 262144)) = 16515072"
    by (simp add: round_even_def Let_def)
  show ?thesis
    by (subst round_single_unfold [OF _ e]) (simp_all only: u r Let_def, simp_all)
qed


lemma binade:
  assumes "x \<noteq> 0"
  defines "e \<equiv> \<lfloor>log 2 \<bar>x\<bar>\<rfloor>"
  shows "2 powr real_of_int e \<le> \<bar>x\<bar>" and "\<bar>x\<bar> < 2 powr (real_of_int e + 1)"
proof -
  have "0 < \<bar>x\<bar>"
    using assms by simp
  then have "2 powr real_of_int e \<le> \<bar>x\<bar> \<and> \<bar>x\<bar> < 2 powr (real_of_int e + 1)"
    using floor_log_eq_powr_iff [of "\<bar>x\<bar>" 2 e] by (simp add: e_def)
  then show "2 powr real_of_int e \<le> \<bar>x\<bar>" and "\<bar>x\<bar> < 2 powr (real_of_int e + 1)"
    by simp_all
qed

lemma binade_bounds:
  assumes lo: "1 / 64 \<le> \<bar>x\<bar>" and hi: "\<bar>x\<bar> < 16777216"
  shows "- 6 \<le> \<lfloor>log 2 \<bar>x\<bar>\<rfloor>" and "\<lfloor>log 2 \<bar>x\<bar>\<rfloor> \<le> 23"
proof -
  let ?e = "\<lfloor>log 2 \<bar>x\<bar>\<rfloor>"
  have nz: "x \<noteq> 0"
    using lo by auto
  have small: "(2::real) powr (- 6) = 1 / 64" and big: "(2::real) powr 24 = 16777216"
    by (simp_all add: powr_minus flip: powr_numeral)
  have "(2::real) powr (- 6) < 2 powr (real_of_int ?e + 1)"
    using lo binade(2) [OF nz] by (simp only: small)
  then have "- 6 < real_of_int ?e + 1"
    by simp
  then show "- 6 \<le> ?e"
    by linarith
  have "(2::real) powr real_of_int ?e < 2 powr 24"
    using hi binade(1) [OF nz] by (simp only: big)
  then have "real_of_int ?e < 24"
    by (rule powr_less_cancel) simp
  then show "?e \<le> 23"
    by linarith
qed

lemma round_single_integer:
  assumes "\<bar>k\<bar> < 16777216"
  shows "round_single (real_of_int k) = Finite (real_of_int k)"
proof (cases "k = 0")
  case True
  then show ?thesis
    by (simp add: round_single_def)
next
  case False
  let ?x = "real_of_int k"
  let ?e = "\<lfloor>log 2 \<bar>?x\<bar>\<rfloor>"
  have nz: "?x \<noteq> 0"
    using False by simp
  have "1 \<le> \<bar>k\<bar>"
    using False by linarith
  then have "1 \<le> real_of_int \<bar>k\<bar>"
    by (simp only: of_int_1_le_iff)
  moreover have "real_of_int \<bar>k\<bar> < 16777216"
    using assms by linarith
  ultimately have size: "1 / 64 \<le> \<bar>?x\<bar>" "\<bar>?x\<bar> < 16777216"
    by simp_all
  then have e: "- 6 \<le> ?e" "?e \<le> 23"
    by (rule binade_bounds)+
  define n where "n = nat (23 - ?e)"
  have u: "2 powr (real_of_int ?e - 23) = 1 / 2 ^ n"
  proof -
    have "real_of_int ?e - 23 = - real n"
      using e by (simp add: n_def)
    then show ?thesis
      by (simp add: powr_minus powr_realpow inverse_eq_divide)
  qed
  have "?x / (1 / 2 ^ n) = real_of_int (k * 2 ^ n)"
    by simp
  then have r: "round_even (?x / (1 / 2 ^ n)) = k * 2 ^ n"
    by (simp only: round_even_int)
  have y: "real_of_int (k * 2 ^ n) * (1 / 2 ^ n) = ?x"
    by simp
  have "(16777216::real) < 2 ^ 128"
    by simp
  with size have range: "\<not> 2 ^ 128 \<le> ?x" "\<not> ?x \<le> - (2 ^ 128)"
    by linarith+
  have "- 126 \<le> ?e"
    using e by linarith
  from round_single_unfold [OF nz refl this] show ?thesis
    by (simp only: u r y Let_def range if_False)
qed

lemma round_single_close:
  assumes lo: "1 / 64 \<le> \<bar>x\<bar>" and hi: "\<bar>x\<bar> < 16777216"
  shows "\<exists>y. round_single x = Finite y \<and> \<bar>y - x\<bar> \<le> \<bar>x\<bar> / 8388608"
proof -
  let ?e = "\<lfloor>log 2 \<bar>x\<bar>\<rfloor>"
  let ?u = "2 powr (real_of_int ?e - 23)"
  let ?y = "real_of_int (round_even (x / ?u)) * ?u"
  have nz: "x \<noteq> 0"
    using lo by auto
  have e: "- 6 \<le> ?e" "?e \<le> 23"
    using lo hi by (rule binade_bounds)+
  have upos: "0 < ?u"
    by simp
  have "?u = 2 powr real_of_int ?e / 2 powr 23"
    by (simp add: powr_diff)
  also have "\<dots> = 2 powr real_of_int ?e / 8388608"
    by (simp flip: powr_numeral)
  also have "\<dots> \<le> \<bar>x\<bar> / 8388608"
    using binade(1) [OF nz] by (simp add: divide_right_mono)
  finally have usmall: "?u \<le> \<bar>x\<bar> / 8388608" .
  have "?y - x = (real_of_int (round_even (x / ?u)) - x / ?u) * ?u"
    using upos by (simp add: field_simps)
  then have "\<bar>?y - x\<bar> = \<bar>real_of_int (round_even (x / ?u)) - x / ?u\<bar> * ?u"
    using upos by (simp add: abs_mult)
  also have "\<dots> \<le> 1 / 2 * ?u"
    using round_even_close [of "x / ?u"] upos by (intro mult_right_mono) simp_all
  finally have err: "\<bar>?y - x\<bar> \<le> ?u / 2"
    by simp
  with usmall have close: "\<bar>?y - x\<bar> \<le> \<bar>x\<bar> / 8388608"
    by linarith
  have "\<bar>x\<bar> / 8388608 < 2" and "(16777218::real) < 2 ^ 128"
    using hi by simp_all
  with close hi have range: "\<not> 2 ^ 128 \<le> ?y" "\<not> ?y \<le> - (2 ^ 128)"
    by linarith+
  have "- 126 \<le> ?e"
    using e by linarith
  from round_single_unfold [OF nz refl this] have "round_single x = Finite ?y"
    by (simp only: Let_def range if_False)
  with close show ?thesis
    by blast
qed

text \<open>Single precision meets what the properties ask of the rounding.\<close>

lemma single_platform_single: "rounds_like_single single_platform"
proof -
  have round: "round_float single_platform = round_single"
    by (simp add: single_platform_def)
  show ?thesis
    unfolding rounds_like_single_def round
    using round_single_integer round_single_close by blast
qed

subsection \<open>Mode switching\<close>

lemma currentMode_switchMode: "currentMode (switchMode m s) = m"
  by (simp add: switchMode_def motor_defs hal_defs Let_def split: RobotMode.split)

text \<open>
  Claim C1, as amended. A call \<^verbatim>\<open>switchMode(target)\<close> with \<open>target\<close> different from the
  active mode first stops both motors: the six writes of \<^verbatim>\<open>stopMoving\<close> are the first
  calls of the transition, and the state they leave still has the old mode and has the
  motors at rest. The result is that state with the mode set to \<open>target\<close>, the partial input
  line emptied, the test phase at 0, the running flag cleared and the confirmation
  printed; for \<open>target = MODE_TEST\<close> the phase start is set to the clock reading and the
  running flag is set again. The time of the last joystick command is left as it was.
\<close>

theorem switchMode_transition:
  assumes "currentMode s \<noteq> target"
  shows "switchMode target s =
       (stopMoving s)\<lparr>currentMode := target, inputLine := '''', testPhase := 0,
          testRunning := (target = MODE_TEST),
          testStartTime := (if target = MODE_TEST then shd (clock s) else testStartTime s),
          clock := (if target = MODE_TEST then stl (clock s) else clock s),
          calls := calls s @ stop_writes @
            [SerialPrint ''Mode switched to: '', SerialPrintln (mode_name target)]\<rparr> \<and>
     currentMode (stopMoving s) = currentMode s \<and>
     motors_stopped (stopMoving s) \<and>
     motors_stopped (switchMode target s) \<and>
     currentMode (switchMode target s) = target \<and>
     inputLine (switchMode target s) = '''' \<and>
     testPhase (switchMode target s) = 0 \<and>
     testRunning (switchMode target s) = (target = MODE_TEST) \<and>
     lastCommandTime (switchMode target s) = lastCommandTime s \<and>
     (target = MODE_TEST \<longrightarrow> testStartTime (switchMode target s) = shd (clock s))"
  using assms
  by (cases target)
     (simp_all add: switchMode_def motors_stopped_def motor_defs hal_defs pin_defs
        stop_writes_def Let_def)

theorem switchMode_transition_witness:
  "currentMode (booted 7) \<noteq> MODE_TEST \<and>
   currentMode (switchMode MODE_TEST (booted 7)) = MODE_TEST \<and>
   motors_stopped (switchMode MODE_TEST (booted 7)) \<and>
   inputLine (switchMode MODE_TEST (booted 7)) = '''' \<and>
   testPhase (switchMode MODE_TEST (booted 7)) = 0 \<and>
   testRunning (switchMode MODE_TEST (booted 7)) \<and>
   testStartTime (switchMode MODE_TEST (booted 7)) = 7"
proof -
  have mode: "currentMode (booted 7) \<noteq> MODE_TEST"
    by (simp add: example_defs motor_defs hal_defs Let_def)
  have reading: "shd (clock (booted 7)) = 7"
    by (simp add: example_defs motor_defs hal_defs Let_def)
  from switchMode_transition [OF mode] mode reading show ?thesis
    by metis
qed

text \<open>
  Claim C1 as stated fails: the time of the last joystick command is not reset. A command
  accepted at time 5000 leaves 5000 in \<^verbatim>\<open>lastCommandTime\<close>, and the switch to auto-follow
  that comes next leaves it there.
\<close>

theorem switchMode_lastCommandTime_counterexample:
  "lastCommandTime (processJoystickCommand demo_platform ''J0:45,0.5'' (booted 5000)) = 5000 \<and>
   currentMode (processJoystickCommand demo_platform ''J0:45,0.5'' (booted 5000))
     \<noteq> MODE_AUTO_FOLLOW \<and>
   lastCommandTime (switchMode MODE_AUTO_FOLLOW
      (processJoystickCommand demo_platform ''J0:45,0.5'' (booted 5000))) = 5000 \<and>
   lastCommandTime (switchMode MODE_AUTO_FOLLOW
      (processJoystickCommand demo_platform ''J0:45,0.5'' (booted 5000))) \<noteq> 0"
  by (simp add: example_defs switchMode_def processJoystickCommand_def controlMotors_def
      startsWith_def indexOf_def substring_def substring_from_def motor_defs hal_defs Let_def)

text \<open>
  Claim C9. \<^verbatim>\<open>switchMode(m)\<close> with \<open>m\<close> already active returns the state as it is: no
  write to the motors, no reset, nothing printed. So a directive repeated has the effect
  of the directive issued once.
\<close>

theorem switchMode_same_mode_noop:
  "(currentMode s = m \<longrightarrow> switchMode m s = s) \<and>
   switchMode m (switchMode m s) = switchMode m s"
proof
  show "currentMode s = m \<longrightarrow> switchMode m s = s"
    by (simp add: switchMode_def)
next
  have "currentMode (switchMode m s) = m"
    by (rule currentMode_switchMode)
  then show "switchMode m (switchMode m s) = switchMode m s"
    by (simp add: switchMode_def [of m "switchMode m s"])
qed

theorem switchMode_same_mode_noop_witness:
  "currentMode (booted 0) = MODE_BLUETOOTH \<and>
   switchMode MODE_BLUETOOTH (booted 0) = booted 0 \<and>
   calls (switchMode MODE_TEST (switchMode MODE_TEST (booted 0))) =
     calls (booted 0) @ stop_writes @ [SerialPrint ''Mode switched to: '', SerialPrintln ''TEST'']"
proof -
  have mode: "currentMode (booted 0) = MODE_BLUETOOTH"
    by (simp add: example_defs motor_defs hal_defs Let_def)
  have once: "calls (switchMode MODE_TEST (booted 0)) =
     calls (booted 0) @ stop_writes @ [SerialPrint ''Mode switched to: '', SerialPrintln ''TEST'']"
    by (simp add: example_defs switchMode_def motor_defs hal_defs stop_writes_def Let_def)
  from switchMode_same_mode_noop [of "booted 0" MODE_BLUETOOTH] mode
    switchMode_same_mode_noop [of "booted 0" MODE_TEST] once
  show ?thesis by simp
qed

subsection \<open>Actuation layer\<close>


text \<open>
  Read with the declarations of the pins instead, the same writes drive the left motor
  backward and the right motor forward in \<^verbatim>\<open>turnLeft\<close>, and the reverse in \<^verbatim>\<open>turnRight\<close>.
\<close>

lemma turns_by_declared_labels:
  "left_motor Declared (turnLeft spd s) = drive_backward \<and>
   right_motor Declared (turnLeft spd s) = drive_forward \<and>
   left_motor Declared (turnRight spd s) = drive_forward \<and>
   right_motor Declared (turnRight spd s) = drive_backward"
  by (simp add: motor_defs hal_defs pin_defs left_motor_def right_motor_def
      drive_forward_def drive_backward_def Let_def)

subsection \<open>Joystick mapping\<close>

lemma controlMotors_stop:
  "float_less mag 0.15 \<Longrightarrow> controlMotors P rot mag s = stopMoving s"
  by (simp add: controlMotors_def)

lemma controlMotors_bands:
  assumes "\<not> float_less mag 0.15"
  shows "controlMotors P (Finite r) mag s =
     (if 330 \<le> r \<or> r < 30 then turnRight (joystick_speed P mag) s
      else if r < 150 then moveBackward (joystick_speed P mag) s
      else if r < 210 then turnLeft (joystick_speed P mag) s
      else moveForward (joystick_speed P mag) s)"
  using assms by (simp add: controlMotors_def joystick_speed_def Let_def)

lemma controlMotors_infinite:
  assumes "\<not> float_less mag 0.15"
  shows "controlMotors P PosInf mag s = turnRight (joystick_speed P mag) s"
    and "controlMotors P NegInf mag s = turnRight (joystick_speed P mag) s"
  using assms by (simp_all add: controlMotors_def joystick_speed_def Let_def)

lemma joystick_speed_floor:
  assumes "float_mul P (Finite 180) mag = Finite p" and "0 \<le> p" and "p < 32768"
  shows "joystick_speed P mag = \<lfloor>p\<rfloor>"
  using assms
  by (simp add: joystick_speed_def int_to_float_def maxSpeed_def float_to_int_def trunc_def)

lemma joystick_speed_fraction:
  assumes single: "rounds_like_single P" and lo: "0.15 \<le> m" and hi: "m \<le> 1"
  shows "\<exists>p. float_mul P (Finite 180) (Finite m) = Finite p \<and>
     \<bar>p - 180 * m\<bar> \<le> 180 * m / 8388608 \<and> joystick_speed P (Finite m) = \<lfloor>p\<rfloor>"
proof -
  let ?x = "180 * m"
  have x: "27 \<le> ?x" "?x \<le> 180"
    using lo hi by simp_all
  then have "1 / 64 \<le> \<bar>?x\<bar> \<and> \<bar>?x\<bar> < 16777216"
    by simp
  with single obtain p where p: "round_float P ?x = Finite p" "\<bar>p - ?x\<bar> \<le> \<bar>?x\<bar> / 8388608"
    unfolding rounds_like_single_def by blast
  have close: "\<bar>p - ?x\<bar> \<le> ?x / 8388608"
    using p x by simp
  have "?x / 8388608 \<le> 1"
    using x by simp
  with close x have range: "0 \<le> p" "p < 32768"
    by linarith+
  have prod: "float_mul P (Finite 180) (Finite m) = Finite p"
    using p by simp
  from joystick_speed_floor [OF prod range] prod close show ?thesis
    by blast
qed

lemma joystick_speed_near_floor:
  assumes single: "rounds_like_single P" and lo: "0.15 \<le> m" and hi: "m \<le> 1"
  shows "\<bar>joystick_speed P (Finite m) - \<lfloor>180 * m\<rfloor>\<bar> \<le> 1"
    and "\<lfloor>180 * m - 180 * m / 8388608\<rfloor> = \<lfloor>180 * m + 180 * m / 8388608\<rfloor> \<Longrightarrow>
      joystick_speed P (Finite m) = \<lfloor>180 * m\<rfloor>"
proof -
  let ?x = "180 * m"
  let ?d = "180 * m / 8388608"
  from joystick_speed_fraction [OF assms] obtain q
    where q: "\<bar>q - ?x\<bar> \<le> ?d" and speed: "joystick_speed P (Finite m) = \<lfloor>q\<rfloor>"
    by blast
  have d: "0 \<le> ?d" "?d \<le> 1"
    using lo hi by simp_all
  have below: "?x - ?d \<le> q" and above: "q \<le> ?x + ?d"
    using q by linarith+
  have "\<lfloor>?x - 1\<rfloor> \<le> \<lfloor>q\<rfloor>" "\<lfloor>q\<rfloor> \<le> \<lfloor>?x + 1\<rfloor>"
    using below above d by (intro floor_mono; linarith)+
  then show "\<bar>joystick_speed P (Finite m) - \<lfloor>?x\<rfloor>\<bar> \<le> 1"
    by (simp add: speed)
  assume same: "\<lfloor>?x - ?d\<rfloor> = \<lfloor>?x + ?d\<rfloor>"
  have "\<lfloor>?x - ?d\<rfloor> \<le> \<lfloor>q\<rfloor>" "\<lfloor>q\<rfloor> \<le> \<lfloor>?x + ?d\<rfloor>"
    "\<lfloor>?x - ?d\<rfloor> \<le> \<lfloor>?x\<rfloor>" "\<lfloor>?x\<rfloor> \<le> \<lfloor>?x + ?d\<rfloor>"
    using below above d by (intro floor_mono; linarith)+
  with same show "joystick_speed P (Finite m) = \<lfloor>?x\<rfloor>"
    by (simp add: speed)
qed

lemma turnRight_not_stop: "turnRight spd s \<noteq> stopMoving s"
proof
  assume "turnRight spd s = stopMoving s"
  then have "calls (turnRight spd s) = calls (stopMoving s)"
    by simp
  then show False
    by (simp add: motor_defs hal_defs stop_writes_def Let_def)
qed

lemma controlMotors_ordered_rotation:
  assumes "\<not> float_less mag 0.15" and "rot \<noteq> NaN"
  shows "controlMotors P rot mag s \<in>
     {turnRight (joystick_speed P mag) s, moveBackward (joystick_speed P mag) s,
      turnLeft (joystick_speed P mag) s, moveForward (joystick_speed P mag) s}"
  using assms by (cases rot) (simp_all add: controlMotors_bands controlMotors_infinite)

lemma controlMotors_out_of_range:
  assumes "\<not> float_less mag 0.15" and "r < 0 \<or> 360 \<le> r"
  shows "controlMotors P (Finite r) mag s = turnRight (joystick_speed P mag) s"
  using assms by (auto simp add: controlMotors_bands)

text \<open>
  Claim C3, as amended. A magnitude below 0.15 stops the motors whatever the rotation:
  0.149999 stops, and 0.15 does not. For any other magnitude a rotation in \<open>[330, 360)\<close> or
  \<open>[0, 30)\<close> turns right, one in \<open>[30, 150)\<close> moves backward, one in \<open>[150, 210)\<close> turns left
  and one in \<open>[210, 330)\<close> moves forward; every rotation in \<open>[0, 360)\<close> lies in exactly one
  of the four bands. The speed handed over is the integer part of the product of
  \<^verbatim>\<open>maxSpeed\<close>, 180, and the magnitude as the board rounds that product: whenever the
  rounded product is a non-negative number that an \<^verbatim>\<open>int\<close> holds, the speed is its floor. On
  a board that rounds like single precision, and for every magnitude from 0.15 to 1, the
  rounded product is within one part in \<open>2^23\<close> of \<open>180 * m\<close>; the speed is then within 1 of
  the floor of \<open>180 * m\<close>, and equal to it unless \<open>180 * m\<close> is that close to an integer.
\<close>

theorem controlMotors_mapping:
  "(float_less mag 0.15 \<longrightarrow> controlMotors P rot mag s = stopMoving s) \<and>
   controlMotors P rot (Finite 0.149999) s = stopMoving s \<and>
   controlMotors P (Finite 0) (Finite 0.15) s = turnRight (joystick_speed P (Finite 0.15)) s \<and>
   controlMotors P (Finite 0) (Finite 0.15) s \<noteq> stopMoving s \<and>
   (\<not> float_less mag 0.15 \<longrightarrow>
      (330 \<le> r \<and> r < 360 \<or> 0 \<le> r \<and> r < 30 \<longrightarrow>
         controlMotors P (Finite r) mag s = turnRight (joystick_speed P mag) s) \<and>
      (30 \<le> r \<and> r < 150 \<longrightarrow>
         controlMotors P (Finite r) mag s = moveBackward (joystick_speed P mag) s) \<and>
      (150 \<le> r \<and> r < 210 \<longrightarrow>
         controlMotors P (Finite r) mag s = turnLeft (joystick_speed P mag) s) \<and>
      (210 \<le> r \<and> r < 330 \<longrightarrow>
         controlMotors P (Finite r) mag s = moveForward (joystick_speed P mag) s)) \<and>
   (0 \<le> r \<and> r < 360 \<longrightarrow>
      length (filter id [330 \<le> r \<and> r < 360 \<or> 0 \<le> r \<and> r < 30, 30 \<le> r \<and> r < 150,
         150 \<le> r \<and> r < 210, 210 \<le> r \<and> r < 330]) = 1) \<and>
   (float_mul P (Finite 180) mag = Finite p \<and> 0 \<le> p \<and> p < 32768 \<longrightarrow>
      joystick_speed P mag = \<lfloor>p\<rfloor>) \<and>
   (rounds_like_single P \<and> 0.15 \<le> m \<and> m \<le> 1 \<longrightarrow>
      (\<exists>q. float_mul P (Finite 180) (Finite m) = Finite q \<and>
         \<bar>q - 180 * m\<bar> \<le> 180 * m / 8388608 \<and> joystick_speed P (Finite m) = \<lfloor>q\<rfloor>)) \<and>
   (rounds_like_single P \<and> 0.15 \<le> m \<and> m \<le> 1 \<longrightarrow>
      \<bar>joystick_speed P (Finite m) - \<lfloor>180 * m\<rfloor>\<bar> \<le> 1) \<and>
   (rounds_like_single P \<and> 0.15 \<le> m \<and> m \<le> 1 \<and>
      \<lfloor>180 * m - 180 * m / 8388608\<rfloor> = \<lfloor>180 * m + 180 * m / 8388608\<rfloor> \<longrightarrow>
      joystick_speed P (Finite m) = \<lfloor>180 * m\<rfloor>)"
proof (intro conjI)
  show "float_less mag 0.15 \<longrightarrow> controlMotors P rot mag s = stopMoving s"
    by (simp add: controlMotors_stop)
  show "controlMotors P rot (Finite 0.149999) s = stopMoving s"
    by (simp add: controlMotors_stop)
  have edge: "\<not> float_less (Finite 0.15) 0.15"
    by simp
  show at_edge:
    "controlMotors P (Finite 0) (Finite 0.15) s = turnRight (joystick_speed P (Finite 0.15)) s"
    using controlMotors_bands [OF edge, of P 0 s] by simp
  show "controlMotors P (Finite 0) (Finite 0.15) s \<noteq> stopMoving s"
    unfolding at_edge by (rule turnRight_not_stop)
  show "\<not> float_less mag 0.15 \<longrightarrow>
      (330 \<le> r \<and> r < 360 \<or> 0 \<le> r \<and> r < 30 \<longrightarrow>
         controlMotors P (Finite r) mag s = turnRight (joystick_speed P mag) s) \<and>
      (30 \<le> r \<and> r < 150 \<longrightarrow>
         controlMotors P (Finite r) mag s = moveBackward (joystick_speed P mag) s) \<and>
      (150 \<le> r \<and> r < 210 \<longrightarrow>
         controlMotors P (Finite r) mag s = turnLeft (joystick_speed P mag) s) \<and>
      (210 \<le> r \<and> r < 330 \<longrightarrow>
         controlMotors P (Finite r) mag s = moveForward (joystick_speed P mag) s)"
    by (simp add: controlMotors_bands)
  show "0 \<le> r \<and> r < 360 \<longrightarrow>
      length (filter id [330 \<le> r \<and> r < 360 \<or> 0 \<le> r \<and> r < 30, 30 \<le> r \<and> r < 150,
         150 \<le> r \<and> r < 210, 210 \<le> r \<and> r < 330]) = 1"
    by auto
  show "float_mul P (Finite 180) mag = Finite p \<and> 0 \<le> p \<and> p < 32768 \<longrightarrow>
      joystick_speed P mag = \<lfloor>p\<rfloor>"
    by (simp add: joystick_speed_floor)
  show "rounds_like_single P \<and> 0.15 \<le> m \<and> m \<le> 1 \<longrightarrow>
      (\<exists>q. float_mul P (Finite 180) (Finite m) = Finite q \<and>
         \<bar>q - 180 * m\<bar> \<le> 180 * m / 8388608 \<and> joystick_speed P (Finite m) = \<lfloor>q\<rfloor>)"
    using joystick_speed_fraction [of P m] by blast
  show "rounds_like_single P \<and> 0.15 \<le> m \<and> m \<le> 1 \<longrightarrow>
      \<bar>joystick_speed P (Finite m) - \<lfloor>180 * m\<rfloor>\<bar> \<le> 1"
    using joystick_speed_near_floor(1) [of P m] by blast
  show "rounds_like_single P \<and> 0.15 \<le> m \<and> m \<le> 1 \<and>
      \<lfloor>180 * m - 180 * m / 8388608\<rfloor> = \<lfloor>180 * m + 180 * m / 8388608\<rfloor> \<longrightarrow>
      joystick_speed P (Finite m) = \<lfloor>180 * m\<rfloor>"
    using joystick_speed_near_floor(2) [of P m] by blast
qed

theorem controlMotors_mapping_witness:
  "\<not> float_less (Finite (1 / 2)) 0.15 \<and> 30 \<le> (45::real) \<and> (45::real) < 150 \<and>
   float_mul demo_platform (Finite 180) (Finite (1 / 2)) = Finite 90 \<and>
   joystick_speed demo_platform (Finite (1 / 2)) = 90 \<and>
   controlMotors demo_platform (Finite 45) (Finite (1 / 2)) (booted 0) =
     moveBackward (joystick_speed demo_platform (Finite (1 / 2))) (booted 0) \<and>
   float_less (Finite (1 / 10)) 0.15 \<and>
   controlMotors demo_platform (Finite 45) (Finite (1 / 10)) (booted 0) = stopMoving (booted 0) \<and>
   rounds_like_single demo_platform \<and> 0.15 \<le> (1 / 2 :: real) \<and> (1 / 2 :: real) \<le> 1 \<and>
   (\<exists>q. float_mul demo_platform (Finite 180) (Finite (1 / 2)) = Finite q \<and>
      \<bar>q - 180 * (1 / 2)\<bar> \<le> 180 * (1 / 2) / 8388608 \<and>
      joystick_speed demo_platform (Finite (1 / 2)) = \<lfloor>q\<rfloor>) \<and>
   rounds_like_single single_platform \<and> 0.15 \<le> (51 / 100 :: real) \<and> (51 / 100 :: real) \<le> 1 \<and>
   \<lfloor>180 * (51 / 100) - 180 * (51 / 100) / 8388608 :: real\<rfloor> = 91 \<and>
   \<lfloor>180 * (51 / 100) + 180 * (51 / 100) / 8388608 :: real\<rfloor> = 91 \<and>
   joystick_speed single_platform (Finite (51 / 100)) = 91"
proof -
  have mag: "\<not> float_less (Finite (1 / 2)) 0.15"
    by simp
  have low: "float_less (Finite (1 / 10)) 0.15"
    by simp
  have prod: "float_mul demo_platform (Finite 180) (Finite (1 / 2)) = Finite 90"
    by (simp add: demo_platform_def)
  have band: "30 \<le> (45::real) \<and> (45::real) < 150"
    and range: "0 \<le> (90::real) \<and> (90::real) < 32768"
    and fraction: "0.15 \<le> (1 / 2 :: real) \<and> (1 / 2 :: real) \<le> 1"
    by simp_all
  have fl: "\<lfloor>90::real\<rfloor> = 90"
    by simp
  note high =
    controlMotors_mapping [of "Finite (1 / 2)" demo_platform "Finite 45" "booted 0" 45 90 "1 / 2"]
  note small =
    controlMotors_mapping [of "Finite (1 / 10)" demo_platform "Finite 45" "booted 0" 45 90 "1 / 2"]
  from high mag band
  have "controlMotors demo_platform (Finite 45) (Finite (1 / 2)) (booted 0) =
     moveBackward (joystick_speed demo_platform (Finite (1 / 2))) (booted 0)"
    by blast
  moreover from high prod range fl have "joystick_speed demo_platform (Finite (1 / 2)) = 90"
    by metis
  moreover from small low
  have "controlMotors demo_platform (Finite 45) (Finite (1 / 10)) (booted 0) = stopMoving (booted 0)"
    by blast
  moreover from high demo_platform_single fraction
  have "\<exists>q. float_mul demo_platform (Finite 180) (Finite (1 / 2)) = Finite q \<and>
      \<bar>q - 180 * (1 / 2)\<bar> \<le> 180 * (1 / 2) / 8388608 \<and>
      joystick_speed demo_platform (Finite (1 / 2)) = \<lfloor>q\<rfloor>"
    by blast
  moreover have typical: "0.15 \<le> (51 / 100 :: real) \<and> (51 / 100 :: real) \<le> 1"
    and floors: "\<lfloor>180 * (51 / 100) - 180 * (51 / 100) / 8388608 :: real\<rfloor> = 91"
      "\<lfloor>180 * (51 / 100) + 180 * (51 / 100) / 8388608 :: real\<rfloor> = 91"
      "\<lfloor>180 * (51 / 100) :: real\<rfloor> = 91"
    by (simp_all add: floor_eq_iff)
  moreover from
    controlMotors_mapping [of "Finite (1 / 2)" single_platform "Finite 45" "booted 0" 45 90 "51 / 100"]
    single_platform_single typical floors
  have "joystick_speed single_platform (Finite (51 / 100)) = 91"
    by metis
  ultimately show ?thesis
    using mag low prod band fraction demo_platform_single single_platform_single by blast
qed

text \<open>
  Claim C3 as stated fails: the speed is not always the floor of 180 times the magnitude.
  In single precision the float nearest 0.35 is \<open>11744051 / 2^25\<close>; 180 times it is a little
  below 63 and has floor 62, but the product rounds to 63, and with rotation 45 the robot
  moves backward at speed 63.
\<close>

theorem controlMotors_speed_counterexample:
  "\<not> float_less (Finite (11744051 / 33554432)) 0.15 \<and>
   joystick_speed single_platform (Finite (11744051 / 33554432)) = 63 \<and>
   \<lfloor>180 * (11744051 / 33554432 :: real)\<rfloor> = 62 \<and>
   controlMotors single_platform (Finite 45) (Finite (11744051 / 33554432)) (booted 0) =
     moveBackward 63 (booted 0) \<and>
   moveBackward 63 (booted 0) \<noteq> moveBackward \<lfloor>180 * (11744051 / 33554432 :: real)\<rfloor> (booted 0)"
proof -
  have mag: "\<not> float_less (Finite (11744051 / 33554432)) 0.15"
    by simp
  have conv: "int_to_float single_platform maxSpeed = Finite 180"
    by (simp add: int_to_float_def maxSpeed_def)
  have prod: "float_mul single_platform (Finite 180) (Finite (11744051 / 33554432)) = Finite 63"
    using round_single_product by (simp add: single_platform_def)
  have speed: "joystick_speed single_platform (Finite (11744051 / 33554432)) = 63"
    by (simp only: joystick_speed_def conv prod) (simp add: float_to_int_def trunc_def)
  have exact: "\<lfloor>180 * (11744051 / 33554432 :: real)\<rfloor> = 62"
    by (simp add: floor_eq_iff)
  have run: "controlMotors single_platform (Finite 45) (Finite (11744051 / 33554432)) (booted 0) =
      moveBackward 63 (booted 0)"
    using controlMotors_bands [OF mag, of single_platform 45 "booted 0"] by (simp add: speed)
  have "pwm (moveBackward 63 (booted 0)) ENA \<noteq> pwm (moveBackward 62 (booted 0)) ENA"
    by (simp add: motor_defs hal_defs pin_defs Let_def)
  then have differ: "moveBackward 63 (booted 0) \<noteq> moveBackward 62 (booted 0)"
    by auto
  from mag speed exact run differ show ?thesis
    by (simp only: simp_thms)
qed

text \<open>
  Claim C10. The four branches of \<^verbatim>\<open>controlMotors\<close> are meant to cover every rotation,
  and for every rotation that is ordered against a number they do (with the rotations
  below 0 and from 360 up, infinite ones included, in the first branch). A NaN is a value
  of \<^verbatim>\<open>float\<close> too, and every comparison with it is false: with rotation NaN and
  magnitude 0.5 no branch is taken, no call is made and the motors stay as they were.
\<close>

theorem controlMotors_nan_rotation:
  "\<not> float_less (Finite (1 / 2)) 0.15 \<and> controlMotors P NaN (Finite (1 / 2)) s = s"
  by (simp add: controlMotors_def Let_def)

text \<open>
  The failing input through the parser: on a platform whose \<^verbatim>\<open>toFloat\<close> reads \<^verbatim>\<open>nan\<close> as
  a NaN, the line \<^verbatim>\<open>J0:nan,0.5\<close> is accepted, printed and time-stamped, and no motor
  register is written.
\<close>

lemma processJoystickCommand_nan_line:
  assumes "toFloat P ''nan'' = NaN" and "toFloat P ''0.5'' = Finite (1 / 2)"
  shows "lastCommandTime (processJoystickCommand P ''J0:nan,0.5'' s) = shd (clock s) \<and>
     pins (processJoystickCommand P ''J0:nan,0.5'' s) = pins s \<and>
     pwm (processJoystickCommand P ''J0:nan,0.5'' s) = pwm s \<and>
     calls (processJoystickCommand P ''J0:nan,0.5'' s) =
       calls s @ [SerialPrint ''Angle = '', SerialPrintFloat NaN,
         SerialPrint ([CHR 0xC3, CHR 0x82, CHR 0xC2, CHR 0xB0] @ '', Magnitude = ''),
         SerialPrintlnFloat (Finite (1 / 2))]"
  using assms
  by (simp add: processJoystickCommand_def startsWith_def indexOf_def substring_def
      substring_from_def controlMotors_def hal_defs Let_def)

subsection \<open>Command parser\<close>

lemma indexOf_none: "(indexOf xs ch = - 1) = (ch \<notin> set xs)"
  by (simp add: indexOf_def)

lemma startsWith_J0_comma:
  assumes "startsWith cmd ''J0:''"
  shows "(CHR '','' \<in> set cmd) = (CHR '','' \<in> set (drop 3 cmd))"
proof -
  have "take 3 cmd = ''J0:''"
    using assms by (simp add: startsWith_def numeral_3_eq_3)
  then have "set cmd = set ''J0:'' \<union> set (drop 3 cmd)"
    by (metis append_take_drop_id set_append)
  then show ?thesis
    by simp
qed

text \<open>
  Claim C8. A line that does not begin with \<^verbatim>\<open>J0:\<close>, or that has no comma after that
  prefix, is dropped and the state is returned as it was: no call to the motors or to the
  serial port is made and the time of the last command is kept. The lines \<^verbatim>\<open>garbage\<close>
  and \<^verbatim>\<open>J0:45\<close> are two such lines.
\<close>

theorem processJoystickCommand_rejects:
  "(\<not> startsWith cmd ''J0:'' \<or> CHR '','' \<notin> set (drop 3 cmd) \<longrightarrow>
      processJoystickCommand P cmd s = s) \<and>
   processJoystickCommand P ''garbage'' s = s \<and>
   processJoystickCommand P ''J0:45'' s = s"
proof (intro conjI impI)
  assume bad: "\<not> startsWith cmd ''J0:'' \<or> CHR '','' \<notin> set (drop 3 cmd)"
  show "processJoystickCommand P cmd s = s"
  proof (cases "startsWith cmd ''J0:''")
    case False
    then show ?thesis
      by (simp add: processJoystickCommand_def)
  next
    case True
    with bad have "CHR '','' \<notin> set cmd"
      by (simp add: startsWith_J0_comma)
    then have "indexOf cmd (CHR '','') = - 1"
      by (simp add: indexOf_none)
    then show ?thesis
      by (simp add: processJoystickCommand_def Let_def)
  qed
next
  show "processJoystickCommand P ''garbage'' s = s"
    by (simp add: processJoystickCommand_def startsWith_def)
  show "processJoystickCommand P ''J0:45'' s = s"
    by (simp add: processJoystickCommand_def startsWith_def indexOf_def Let_def)
qed

theorem processJoystickCommand_rejects_witness:
  "\<not> startsWith ''garbage'' ''J0:'' \<and>
   processJoystickCommand demo_platform ''garbage'' (booted 0) = booted 0 \<and>
   startsWith ''J0:45'' ''J0:'' \<and> CHR '','' \<notin> set (drop 3 ''J0:45'') \<and>
   processJoystickCommand demo_platform ''J0:45'' (booted 0) = booted 0"
proof -
  have a: "\<not> startsWith ''garbage'' ''J0:''"
    by (simp add: startsWith_def)
  have b: "startsWith ''J0:45'' ''J0:''" "CHR '','' \<notin> set (drop 3 ''J0:45'')"
    by (simp_all add: startsWith_def)
  from processJoystickCommand_rejects [of "''garbage''" demo_platform "booted 0"]
    processJoystickCommand_rejects [of "''J0:45''" demo_platform "booted 0"] a b
  show ?thesis by blast
qed

text \<open>An accepted line: rotation 45 and magnitude 0.5 move backward at speed 90.\<close>

lemma processJoystickCommand_example:
  "calls (processJoystickCommand demo_platform ''J0:45,0.5'' s) =
     calls s @ [SerialPrint ''Angle = '', SerialPrintFloat (Finite 45),
         SerialPrint ([CHR 0xC3, CHR 0x82, CHR 0xC2, CHR 0xB0] @ '', Magnitude = ''),
         SerialPrintlnFloat (Finite (1 / 2)),
         DigitalWrite IN1 LOW, DigitalWrite IN2 HIGH, DigitalWrite IN3 LOW,
         DigitalWrite IN4 HIGH, AnalogWrite ENA 90, AnalogWrite ENB 90] \<and>
   lastCommandTime (processJoystickCommand demo_platform ''J0:45,0.5'' s) = shd (clock s)"
  by (simp add: processJoystickCommand_def startsWith_def indexOf_def substring_def
      substring_from_def demo_platform_def controlMotors_def hal_defs motor_defs Let_def
      int_to_float_def maxSpeed_def float_to_int_def trunc_def)

subsection \<open>Ranging\<close>

lemma getDistanceCM_value:
  "fst (getDistanceCM P pin s) =
     (if sint (shd (echo s)) = 0 then 999
      else float_to_long P (float_div P (int_to_float P (sint (shd (echo s)))) 58))"
  by (simp add: getDistanceCM_def hal_defs Let_def)

lemma sint_zero_iff: "sint (w :: ulong) = 0 \<longleftrightarrow> w = 0"
proof
  assume "sint w = 0"
  then have "word_of_int (sint w) = (0 :: ulong)"
    by simp
  then show "w = 0"
    by (simp flip: scast_eq)
next
  assume "w = 0"
  then show "sint w = 0"
    by simp
qed
lemma sint_small:
  fixes w :: ulong
  assumes "uint w < 8388608"
  shows "sint w = uint w"
proof -
  have "- (2 ^ 31) \<le> uint w"
    by (rule order_trans [of _ 0]) simp_all
  moreover have "uint w < 2 ^ 31"
    using assms by simp
  ultimately have "signed_take_bit 31 (uint w) = uint w"
    by (rule signed_take_bit_int_eq_self)
  then show ?thesis
    by (simp add: sint_uint)
qed
lemma uint_positive: "(w::ulong) \<noteq> 0 \<Longrightarrow> 0 < uint w"
  by (metis uint_0_iff uint_ge_0 order_le_less)

lemma quotient_58:
  assumes single: "rounds_like_single P" and pos: "0 < d" and small: "d < 8388608"
  shows "float_to_long P (float_div P (int_to_float P d) 58) = d div 58"
proof -
  define k where "k = d div 58"
  define r where "r = d mod 58"
  have d: "d = 58 * k + r" and r: "0 \<le> r" "r < 58"
    by (simp_all add: k_def r_def)
  have k: "0 \<le> k" "k < 8388608"
    using pos small by (simp_all add: k_def div_int_pos_iff)
  have conv: "int_to_float P d = Finite (real_of_int d)"
    using pos small by (simp add: int_to_float_def)
  have x: "real_of_int d / 58 = real_of_int k + real_of_int r / 58"
    by (simp add: d)
  show ?thesis
  proof (cases "r = 0")
    case True
    then have "real_of_int d / 58 = real_of_int k"
      by (simp add: x)
    moreover have "round_float P (real_of_int k) = Finite (real_of_int k)"
      using single k by (simp add: rounds_like_single_def)
    ultimately have "float_div P (int_to_float P d) 58 = Finite (real_of_int k)"
      by (simp add: conv)
    then show ?thesis
      using k by (simp add: float_to_long_def trunc_def k_def)
  next
    case False
    with r have r1: "1 \<le> r" "r \<le> 57"
      by simp_all
    let ?x = "real_of_int d / 58"
    have xpos: "1 / 64 \<le> ?x" and xsmall: "?x < 8388608 / 58"
      using pos small by simp_all
    then have "1 / 64 \<le> \<bar>?x\<bar> \<and> \<bar>?x\<bar> < 16777216"
      by simp
    with single obtain y where y: "round_float P ?x = Finite y" "\<bar>y - ?x\<bar> \<le> \<bar>?x\<bar> / 8388608"
      unfolding rounds_like_single_def by blast
    have "\<bar>?x\<bar> / 8388608 < 1 / 58"
      using xpos xsmall by simp
    with y have close: "\<bar>y - ?x\<bar> < 1 / 58"
      by linarith
    have "real_of_int k + 1 / 58 \<le> ?x" "?x \<le> real_of_int k + 57 / 58"
      using r1 by (simp_all add: x)
    with close have "real_of_int k < y" "y < real_of_int k + 1"
      by linarith+
    then have fl: "\<lfloor>y\<rfloor> = k" and ypos: "0 \<le> y" and yrange: "y < 2147483648"
      using k by (simp_all add: floor_eq_iff)
    have "float_div P (int_to_float P d) 58 = Finite y"
      by (simp add: conv y)
    then show ?thesis
      using fl ypos yrange by (simp add: float_to_long_def trunc_def k_def)
  qed
qed

text \<open>
  Claim C6. With no echo inside the wait, \<^verbatim>\<open>pulseIn\<close> returns 0 and \<^verbatim>\<open>getDistanceCM\<close>
  returns 999. Any other duration is divided by 58.0 and the quotient converted to
  \<^verbatim>\<open>long\<close>; on a board that rounds like single precision, and for every duration below
  \<open>2^23\<close> microseconds (the wait is 30000), that is the duration divided by 58 with the
  fraction dropped. 580 microseconds give 10.
\<close>

theorem getDistanceCM_result:
  "(shd (echo s) = 0 \<longrightarrow> fst (getDistanceCM P pin s) = 999) \<and>
   (shd (echo s) \<noteq> 0 \<longrightarrow>
      fst (getDistanceCM P pin s) =
        float_to_long P (float_div P (int_to_float P (sint (shd (echo s)))) 58)) \<and>
   (rounds_like_single P \<and> shd (echo s) \<noteq> 0 \<and> uint (shd (echo s)) < 8388608 \<longrightarrow>
      fst (getDistanceCM P pin s) = uint (shd (echo s)) div 58) \<and>
   (rounds_like_single P \<and> shd (echo s) = 580 \<longrightarrow> fst (getDistanceCM P pin s) = 10)"
proof -
  have zero: "sint (shd (echo s)) = 0 \<longleftrightarrow> shd (echo s) = 0"
    by (rule sint_zero_iff)
  have general: "fst (getDistanceCM P pin s) = uint (shd (echo s)) div 58"
    if "rounds_like_single P" and "shd (echo s) \<noteq> 0" and "uint (shd (echo s)) < 8388608"
  proof -
    have "sint (shd (echo s)) = uint (shd (echo s))"
      using that by (simp add: sint_small)
    moreover have "0 < uint (shd (echo s))"
      using that by (simp add: uint_positive)
    ultimately show ?thesis
      using that quotient_58 [of P "uint (shd (echo s))"] by (simp add: getDistanceCM_value)
  qed
  have "fst (getDistanceCM P pin s) = 10" if "rounds_like_single P" and "shd (echo s) = 580"
    using general [OF that(1)] that(2) by simp
  with general show ?thesis
    by (simp add: getDistanceCM_value zero)
qed

theorem getDistanceCM_result_witness:
  "shd (echo (hearing 0)) = 0 \<and> fst (getDistanceCM demo_platform pingPin (hearing 0)) = 999 \<and>
   rounds_like_single demo_platform \<and> shd (echo (hearing 580)) = 580 \<and>
   fst (getDistanceCM demo_platform pingPin (hearing 580)) = 10 \<and>
   shd (echo (hearing 100)) \<noteq> 0 \<and> uint (shd (echo (hearing 100))) < 8388608 \<and>
   fst (getDistanceCM demo_platform pingPin (hearing 100)) = 1"
proof -
  have e: "shd (echo (hearing 0)) = 0" "shd (echo (hearing 580)) = 580" "shd (echo (hearing 100)) = 100"
    by (simp_all add: example_defs motor_defs hal_defs Let_def)
  from getDistanceCM_result [of "hearing 0" demo_platform pingPin]
    getDistanceCM_result [of "hearing 580" demo_platform pingPin]
    getDistanceCM_result [of "hearing 100" demo_platform pingPin]
    e demo_platform_single
  show ?thesis by simp
qed

subsection \<open>Auto-follow mode\<close>

lemma processAutoFollowMode_unfold:
  assumes "getDistanceCM P pingPin s = (d, s1)"
  shows "processAutoFollowMode P s =
     delay 200
       (if 60 < d then Serial_println ''Moving forward'' (moveForward 160 (distance_logged d s1))
        else if d < 25 then Serial_println ''Stopped (too close)'' (stopMoving (distance_logged d s1))
        else Serial_println ''Stopped (maintaining distance)'' (stopMoving (distance_logged d s1)))"
  using assms
  by (simp add: processAutoFollowMode_def distance_logged_def autoFollowSpeed_def
      autoFollowDelay_def Let_def)

text \<open>
  Claim C4. A follow-mode tick takes one sample and falls in exactly one of three bands:
  above 60 it moves forward at speed 160, below 25 it stops, and from 25 to 60, ends
  included, it stops. A timeout of the sensor is the sample 999 and goes the same way, so
  the robot moves forward.
\<close>

theorem processAutoFollowMode_bands:
  assumes "getDistanceCM P pingPin s = (d, s1)"
  shows "(60 < d \<longrightarrow> processAutoFollowMode P s =
        delay 200 (Serial_println ''Moving forward'' (moveForward 160 (distance_logged d s1)))) \<and>
     (d < 25 \<longrightarrow> processAutoFollowMode P s =
        delay 200 (Serial_println ''Stopped (too close)'' (stopMoving (distance_logged d s1)))) \<and>
     (25 \<le> d \<and> d \<le> 60 \<longrightarrow> processAutoFollowMode P s =
        delay 200 (Serial_println ''Stopped (maintaining distance)''
          (stopMoving (distance_logged d s1)))) \<and>
     length (filter id [60 < d, d < 25, 25 \<le> d \<and> d \<le> 60]) = 1 \<and>
     (shd (echo s) = 0 \<longrightarrow> d = 999 \<and> processAutoFollowMode P s =
        delay 200 (Serial_println ''Moving forward'' (moveForward 160 (distance_logged 999 s1))))"
proof -
  have timeout: "d = 999" if "shd (echo s) = 0"
    using getDistanceCM_value [of P pingPin s] assms that by simp
  have bands: "length (filter id [60 < d, d < 25, 25 \<le> d \<and> d \<le> 60]) = 1"
    by auto
  show ?thesis
    using timeout bands by (auto simp add: processAutoFollowMode_unfold [OF assms])
qed

theorem processAutoFollowMode_bands_witness:
  "shd (echo (hearing 0)) = 0 \<and>
   fst (getDistanceCM demo_platform pingPin (hearing 0)) = 999 \<and>
   processAutoFollowMode demo_platform (hearing 0) =
     delay 200 (Serial_println ''Moving forward'' (moveForward 160
       (distance_logged 999 (snd (getDistanceCM demo_platform pingPin (hearing 0)))))) \<and>
   fst (getDistanceCM demo_platform pingPin (hearing 580)) = 10 \<and>
   processAutoFollowMode demo_platform (hearing 580) =
     delay 200 (Serial_println ''Stopped (too close)'' (stopMoving
       (distance_logged 10 (snd (getDistanceCM demo_platform pingPin (hearing 580)))))) \<and>
   fst (getDistanceCM demo_platform pingPin (hearing 2320)) = 40 \<and>
   processAutoFollowMode demo_platform (hearing 2320) =
     delay 200 (Serial_println ''Stopped (maintaining distance)'' (stopMoving
       (distance_logged 40 (snd (getDistanceCM demo_platform pingPin (hearing 2320))))))"
proof -
  have echo: "shd (echo (hearing 0)) = 0" "shd (echo (hearing 580)) = 580"
    "shd (echo (hearing 2320)) = 2320"
    by (simp_all add: example_defs motor_defs hal_defs Let_def)
  have far: "fst (getDistanceCM demo_platform pingPin (hearing 0)) = 999"
    using echo by (simp add: getDistanceCM_value)
  have near: "fst (getDistanceCM demo_platform pingPin (hearing 580)) = 10"
    using echo by (simp add: getDistanceCM_value int_to_float_def float_to_long_def trunc_def
        demo_platform_def)
  have mid: "fst (getDistanceCM demo_platform pingPin (hearing 2320)) = 40"
    using echo by (simp add: getDistanceCM_value int_to_float_def float_to_long_def trunc_def
        demo_platform_def)
  have s0: "getDistanceCM demo_platform pingPin (hearing 0) =
      (999, snd (getDistanceCM demo_platform pingPin (hearing 0)))"
    using far by (metis prod.collapse)
  have s1: "getDistanceCM demo_platform pingPin (hearing 580) =
      (10, snd (getDistanceCM demo_platform pingPin (hearing 580)))"
    using near by (metis prod.collapse)
  have s2: "getDistanceCM demo_platform pingPin (hearing 2320) =
      (40, snd (getDistanceCM demo_platform pingPin (hearing 2320)))"
    using mid by (metis prod.collapse)
  from processAutoFollowMode_bands [OF s0] processAutoFollowMode_bands [OF s1]
    processAutoFollowMode_bands [OF s2] echo far near mid
  show ?thesis by simp
qed

subsection \<open>Test mode\<close>

text \<open>A tick of a sequence that is not running starts it and goes on as a tick of phase 0.\<close>

lemma processTestMode_start:
  assumes "\<not> testRunning s"
  shows "processTestMode s =
     processTestMode (s\<lparr>testStartTime := shd (clock s), testRunning := True, testPhase := 0,
       clock := stl (clock s)\<rparr>)"
  using assms by (simp add: processTestMode_def hal_defs Let_def)

lemma processTestMode_phase0:
  assumes "testRunning s" and "testPhase s = 0"
  shows "processTestMode s =
     (let e = shd (clock s) - testStartTime s; s1 = s\<lparr>clock := stl (clock s)\<rparr>
      in if e < 2000 then Serial_println ''Test: Moving forward'' (moveForward 100 s1)
         else if e < 3000 then Serial_println ''Test: Stopped'' (stopMoving s1)
         else if e < 5000 then Serial_println ''Test: Moving backward'' (moveBackward 100 s1)
         else if e < 6000 then Serial_println ''Test: Stopped'' (stopMoving s1)
         else s1\<lparr>testPhase := 1, testStartTime := shd (clock s1), clock := stl (clock s1)\<rparr>)"
  using assms by (simp add: processTestMode_def testSpeed_def hal_defs Let_def)

lemma processTestMode_phase1:
  assumes "testRunning s" and "testPhase s = 1"
  shows "processTestMode s =
     (let e = shd (clock s) - testStartTime s; s1 = s\<lparr>clock := stl (clock s)\<rparr>
      in if e < 10000 then Serial_println ''Test: Rotating (circle)'' (turnLeft 100 s1)
         else if e < 13000 then Serial_println ''Test: Stopped'' (stopMoving s1)
         else Serial_println ''Test: Cycle restarted''
           (s1\<lparr>testPhase := 0, testStartTime := shd (clock s1), clock := stl (clock s1)\<rparr>))"
  using assms by (simp add: processTestMode_def testSpeed_def hal_defs Let_def)

lemma processTestMode_other_phase:
  assumes "testRunning s" and "testPhase s \<noteq> 0" and "testPhase s \<noteq> 1"
  shows "processTestMode s = s\<lparr>clock := stl (clock s)\<rparr>"
  using assms by (simp add: processTestMode_def hal_defs Let_def)

lemma restart_logged_iff:
  "(SerialPrintln ''Test: Cycle restarted'' \<in> set (new_calls s (processTestMode s))) =
   (testRunning s \<and> testPhase s = 1 \<and> 13000 \<le> shd (clock s) - testStartTime s)"
proof (cases "testRunning s")
  case False
  then show ?thesis
    by (simp add: processTestMode_start processTestMode_phase0 new_calls_def motor_defs hal_defs
        Let_def)
next
  case True
  consider "testPhase s = 0" | "testPhase s = 1" | "testPhase s \<noteq> 0" "testPhase s \<noteq> 1"
    by blast
  then show ?thesis
  proof cases
    case 1
    with True show ?thesis
      by (simp add: processTestMode_phase0 new_calls_def motor_defs hal_defs Let_def)
  next
    case 2
    with True show ?thesis
      by (auto simp add: processTestMode_phase1 new_calls_def motor_defs hal_defs Let_def
          word_le_nat_alt word_less_nat_alt)
  next
    case 3
    with True show ?thesis
      by (simp add: processTestMode_other_phase new_calls_def)
  qed
qed

text \<open>
  Claim C5. Let \<open>e\<close> be the clock reading of the tick less the phase start. In phase 0 the
  tick moves forward at speed 100 for \<open>e\<close> in \<open>[0, 2000)\<close>, stops in \<open>[2000, 3000)\<close>, moves
  backward at 100 in \<open>[3000, 5000)\<close>, stops in \<open>[5000, 6000)\<close>, and from 6000 on goes to
  phase 1 and takes the next clock reading as the phase start, writing nothing to the
  motors. In phase 1 it turns left at 100 in \<open>[0, 10000)\<close>, stops in \<open>[10000, 13000)\<close>, and
  from 13000 on goes back to phase 0, takes the next reading as the phase start and prints
  the restart line. That line is printed by a tick exactly in this last case. A tick of a
  sequence not yet running first makes it a running sequence in phase 0 that starts at the
  clock reading.
\<close>

theorem processTestMode_schedule:
  assumes "e = shd (clock s) - testStartTime s" and "s1 = s\<lparr>clock := stl (clock s)\<rparr>"
  shows "(testRunning s \<and> testPhase s = 0 \<longrightarrow>
       (e < 2000 \<longrightarrow>
          processTestMode s = Serial_println ''Test: Moving forward'' (moveForward 100 s1)) \<and>
       (2000 \<le> e \<and> e < 3000 \<longrightarrow>
          processTestMode s = Serial_println ''Test: Stopped'' (stopMoving s1)) \<and>
       (3000 \<le> e \<and> e < 5000 \<longrightarrow>
          processTestMode s = Serial_println ''Test: Moving backward'' (moveBackward 100 s1)) \<and>
       (5000 \<le> e \<and> e < 6000 \<longrightarrow>
          processTestMode s = Serial_println ''Test: Stopped'' (stopMoving s1)) \<and>
       (6000 \<le> e \<longrightarrow>
          processTestMode s =
            s1\<lparr>testPhase := 1, testStartTime := shd (clock s1), clock := stl (clock s1)\<rparr>)) \<and>
     (testRunning s \<and> testPhase s = 1 \<longrightarrow>
       (e < 10000 \<longrightarrow>
          processTestMode s = Serial_println ''Test: Rotating (circle)'' (turnLeft 100 s1)) \<and>
       (10000 \<le> e \<and> e < 13000 \<longrightarrow>
          processTestMode s = Serial_println ''Test: Stopped'' (stopMoving s1)) \<and>
       (13000 \<le> e \<longrightarrow>
          processTestMode s = Serial_println ''Test: Cycle restarted''
            (s1\<lparr>testPhase := 0, testStartTime := shd (clock s1), clock := stl (clock s1)\<rparr>))) \<and>
     (\<not> testRunning s \<longrightarrow>
        processTestMode s =
          processTestMode (s\<lparr>testStartTime := shd (clock s), testRunning := True,
            testPhase := 0, clock := stl (clock s)\<rparr>)) \<and>
     ((SerialPrintln ''Test: Cycle restarted'' \<in> set (new_calls s (processTestMode s))) =
        (testRunning s \<and> testPhase s = 1 \<and> 13000 \<le> e))"
proof (intro conjI)
  show "testRunning s \<and> testPhase s = 0 \<longrightarrow>
       (e < 2000 \<longrightarrow>
          processTestMode s = Serial_println ''Test: Moving forward'' (moveForward 100 s1)) \<and>
       (2000 \<le> e \<and> e < 3000 \<longrightarrow>
          processTestMode s = Serial_println ''Test: Stopped'' (stopMoving s1)) \<and>
       (3000 \<le> e \<and> e < 5000 \<longrightarrow>
          processTestMode s = Serial_println ''Test: Moving backward'' (moveBackward 100 s1)) \<and>
       (5000 \<le> e \<and> e < 6000 \<longrightarrow>
          processTestMode s = Serial_println ''Test: Stopped'' (stopMoving s1)) \<and>
       (6000 \<le> e \<longrightarrow>
          processTestMode s =
            s1\<lparr>testPhase := 1, testStartTime := shd (clock s1), clock := stl (clock s1)\<rparr>)"
    unfolding assms
    by (auto simp add: processTestMode_phase0 Let_def word_le_nat_alt word_less_nat_alt)
  show "testRunning s \<and> testPhase s = 1 \<longrightarrow>
       (e < 10000 \<longrightarrow>
          processTestMode s = Serial_println ''Test: Rotating (circle)'' (turnLeft 100 s1)) \<and>
       (10000 \<le> e \<and> e < 13000 \<longrightarrow>
          processTestMode s = Serial_println ''Test: Stopped'' (stopMoving s1)) \<and>
       (13000 \<le> e \<longrightarrow>
          processTestMode s = Serial_println ''Test: Cycle restarted''
            (s1\<lparr>testPhase := 0, testStartTime := shd (clock s1), clock := stl (clock s1)\<rparr>))"
    unfolding assms
    by (auto simp add: processTestMode_phase1 Let_def word_le_nat_alt word_less_nat_alt)
  show "\<not> testRunning s \<longrightarrow>
        processTestMode s =
          processTestMode (s\<lparr>testStartTime := shd (clock s), testRunning := True,
            testPhase := 0, clock := stl (clock s)\<rparr>)"
    by (simp add: processTestMode_start)
  show "(SerialPrintln ''Test: Cycle restarted'' \<in> set (new_calls s (processTestMode s))) =
        (testRunning s \<and> testPhase s = 1 \<and> 13000 \<le> e)"
    unfolding assms by (rule restart_logged_iff)
qed

lemma testing_fields:
  "testRunning (testing ph e)" "testPhase (testing ph e) = ph"
  "testStartTime (testing ph e) = 1000" "shd (clock (testing ph e)) = 1000 + e"
  "stl (clock (testing ph e)) = clock (testing ph e)"
  by (simp_all add: example_defs switchMode_def motor_defs hal_defs Let_def)

theorem processTestMode_schedule_witness:
  "testRunning (testing 0 1000) \<and> testPhase (testing 0 1000) = 0 \<and>
   shd (clock (testing 0 1000)) - testStartTime (testing 0 1000) = 1000 \<and>
   processTestMode (testing 0 1000) =
     Serial_println ''Test: Moving forward'' (moveForward 100 (testing 0 1000)) \<and>
   processTestMode (testing 0 2500) = Serial_println ''Test: Stopped'' (stopMoving (testing 0 2500)) \<and>
   processTestMode (testing 0 4000) =
     Serial_println ''Test: Moving backward'' (moveBackward 100 (testing 0 4000)) \<and>
   processTestMode (testing 0 5500) = Serial_println ''Test: Stopped'' (stopMoving (testing 0 5500)) \<and>
   processTestMode (testing 0 6001) = (testing 0 6001)\<lparr>testPhase := 1, testStartTime := 7001\<rparr> \<and>
   testRunning (testing 1 5000) \<and> testPhase (testing 1 5000) = 1 \<and>
   processTestMode (testing 1 5000) =
     Serial_println ''Test: Rotating (circle)'' (turnLeft 100 (testing 1 5000)) \<and>
   processTestMode (testing 1 11000) = Serial_println ''Test: Stopped'' (stopMoving (testing 1 11000)) \<and>
   shd (clock (testing 1 13001)) - testStartTime (testing 1 13001) = 13001 \<and>
   processTestMode (testing 1 13001) =
     Serial_println ''Test: Cycle restarted''
       ((testing 1 13001)\<lparr>testPhase := 0, testStartTime := 14001\<rparr>) \<and>
   SerialPrintln ''Test: Cycle restarted'' \<in>
     set (new_calls (testing 1 13001) (processTestMode (testing 1 13001))) \<and>
   \<not> testRunning (booted 1000) \<and>
   processTestMode (booted 1000) =
     processTestMode ((booted 1000)\<lparr>testStartTime := 1000, testRunning := True, testPhase := 0\<rparr>)"
proof -
  have same: "\<And>ph e. (testing ph e)\<lparr>clock := stl (clock (testing ph e))\<rparr> = testing ph e"
    by (simp add: testing_fields)
  have elapsed: "\<And>ph e. e = shd (clock (testing ph e)) - testStartTime (testing ph e)"
    by (simp add: testing_fields)
  note tick = processTestMode_schedule [OF elapsed same [symmetric]]
  have idle: "\<not> testRunning (booted 1000)" "shd (clock (booted 1000)) = 1000"
    "stl (clock (booted 1000)) = clock (booted 1000)"
    by (simp_all add: example_defs motor_defs hal_defs Let_def)
  have "processTestMode (testing 0 1000) =
      Serial_println ''Test: Moving forward'' (moveForward 100 (testing 0 1000))"
    using tick [of 0 1000] by (simp add: testing_fields)
  moreover have "processTestMode (testing 0 2500) =
      Serial_println ''Test: Stopped'' (stopMoving (testing 0 2500))"
    using tick [of 0 2500] by (simp add: testing_fields)
  moreover have "processTestMode (testing 0 4000) =
      Serial_println ''Test: Moving backward'' (moveBackward 100 (testing 0 4000))"
    using tick [of 0 4000] by (simp add: testing_fields)
  moreover have "processTestMode (testing 0 5500) =
      Serial_println ''Test: Stopped'' (stopMoving (testing 0 5500))"
    using tick [of 0 5500] by (simp add: testing_fields)
  moreover have "processTestMode (testing 0 6001) =
      (testing 0 6001)\<lparr>testPhase := 1, testStartTime := 7001\<rparr>"
    using tick [of 0 6001] by (simp add: testing_fields)
  moreover have "processTestMode (testing 1 5000) =
      Serial_println ''Test: Rotating (circle)'' (turnLeft 100 (testing 1 5000))"
    using tick [of 1 5000] by (simp add: testing_fields)
  moreover have "processTestMode (testing 1 11000) =
      Serial_println ''Test: Stopped'' (stopMoving (testing 1 11000))"
    using tick [of 1 11000] by (simp add: testing_fields)
  moreover have "processTestMode (testing 1 13001) =
      Serial_println ''Test: Cycle restarted''
        ((testing 1 13001)\<lparr>testPhase := 0, testStartTime := 14001\<rparr>)"
    using tick [of 1 13001] by (simp add: testing_fields)
  moreover from tick [of 1 13001]
  have "(SerialPrintln ''Test: Cycle restarted'' \<in>
      set (new_calls (testing 1 13001) (processTestMode (testing 1 13001)))) =
      (testRunning (testing 1 13001) \<and> testPhase (testing 1 13001) = 1 \<and>
       (13000 :: ulong) \<le> 13001)"
    by blast
  then have "SerialPrintln ''Test: Cycle restarted'' \<in>
      set (new_calls (testing 1 13001) (processTestMode (testing 1 13001)))"
    by (simp add: testing_fields)
  moreover from processTestMode_schedule [OF refl refl, of "booted 1000"] idle
  have "processTestMode (booted 1000) =
     processTestMode ((booted 1000)\<lparr>testStartTime := 1000, testRunning := True, testPhase := 0\<rparr>)"
    by simp
  ultimately show ?thesis
    using idle by (simp add: testing_fields)
qed

subsection \<open>Mode directives\<close>

lemma lines_from_unfold:
  "lines_from cur xs =
     (if cur @ xs = [] then []
      else (cur @ takeWhile (\<lambda>c. c \<noteq> CHR 0x0A) xs) #
        lines_from [] (drop 1 (dropWhile (\<lambda>c. c \<noteq> CHR 0x0A) xs)))"
  by (induction xs arbitrary: cur) auto

lemma switchMode_serial_rx:
  "switchMode m (s\<lparr>serial_rx := r\<rparr>) = (switchMode m s)\<lparr>serial_rx := r\<rparr>"
  by (simp add: switchMode_def motor_defs hal_defs Let_def split: RobotMode.split)

lemma mode_directive_serial_rx:
  "mode_directive (s\<lparr>serial_rx := r\<rparr>) line = (mode_directive s line)\<lparr>serial_rx := r\<rparr>"
  by (simp add: mode_directive_def switchMode_serial_rx split: option.split)

lemma foldl_mode_directive_serial_rx:
  "foldl mode_directive (s\<lparr>serial_rx := r\<rparr>) ls = (foldl mode_directive s ls)\<lparr>serial_rx := r\<rparr>"
  by (induction ls arbitrary: s) (simp_all add: mode_directive_serial_rx)

lemma checkModeSwitch_body_directive:
  "checkModeSwitch_body s =
     mode_directive (s\<lparr>serial_rx := drop 1 (dropWhile (\<lambda>c. c \<noteq> CHR 0x0A) (serial_rx s))\<rparr>)
       (takeWhile (\<lambda>c. c \<noteq> CHR 0x0A) (serial_rx s))"
  by (simp add: checkModeSwitch_body_def Serial_readStringUntil_def mode_directive_def
      directive_mode_def Let_def)

lemma checkModeSwitch_lines:
  "checkModeSwitch s = (foldl mode_directive s (lines_from [] (serial_rx s)))\<lparr>serial_rx := []\<rparr>"
proof (induction s rule: checkModeSwitch.induct)
  case (1 s)
  show ?case
  proof (cases "serial_rx s = []")
    case True
    then show ?thesis
      by (simp add: checkModeSwitch.simps [of s] Serial_available_def)
  next
    case False
    let ?line = "takeWhile (\<lambda>c. c \<noteq> CHR 0x0A) (serial_rx s)"
    let ?rest = "drop 1 (dropWhile (\<lambda>c. c \<noteq> CHR 0x0A) (serial_rx s))"
    have avail: "Serial_available s"
      using False by (simp add: Serial_available_def)
    have rest: "serial_rx (checkModeSwitch_body s) = ?rest"
      by (simp add: checkModeSwitch_body_directive mode_directive_serial_rx)
    have "checkModeSwitch s = checkModeSwitch (checkModeSwitch_body s)"
      using avail by (simp add: checkModeSwitch.simps [of s])
    also have "\<dots> = (foldl mode_directive (checkModeSwitch_body s) (lines_from [] ?rest))
        \<lparr>serial_rx := []\<rparr>"
      using "1.IH" [OF avail] by (simp only: rest)
    also have "\<dots> = (foldl mode_directive (mode_directive s ?line) (lines_from [] ?rest))
        \<lparr>serial_rx := []\<rparr>"
      by (simp add: checkModeSwitch_body_directive mode_directive_serial_rx
          foldl_mode_directive_serial_rx)
    also have "\<dots> = (foldl mode_directive s (lines_from [] (serial_rx s)))\<lparr>serial_rx := []\<rparr>"
      using False by (subst (2) lines_from_unfold) simp
    finally show ?thesis .
  qed
qed

lemma foldl_ignored:
  assumes "\<forall>line \<in> set ls. directive_mode (toLowerCase (trim line)) = None"
  shows "foldl mode_directive s ls = s"
  using assms by (induction ls arbitrary: s) (simp_all add: mode_directive_def)

text \<open>
  Claim C7. With no byte waiting \<^verbatim>\<open>checkModeSwitch\<close> returns at once, having read nothing.
  Otherwise it consumes every waiting byte, line by line: each line is trimmed and put in
  lower case, the tokens \<^verbatim>\<open>auto\<close>, \<^verbatim>\<open>bluetooth\<close> and \<^verbatim>\<open>test\<close> switch to their modes, in
  the order of the lines, and any other line changes nothing: input without a directive
  leaves the state as it was but for the bytes consumed.
\<close>

theorem checkModeSwitch_directives:
  "(\<not> Serial_available s \<longrightarrow> checkModeSwitch s = s) \<and>
   serial_rx (checkModeSwitch s) = [] \<and>
   checkModeSwitch s =
     (foldl mode_directive s (lines_from [] (serial_rx s)))\<lparr>serial_rx := []\<rparr> \<and>
   mode_directive s line =
     (if toLowerCase (trim line) = ''auto'' then switchMode MODE_AUTO_FOLLOW s
      else if toLowerCase (trim line) = ''bluetooth'' then switchMode MODE_BLUETOOTH s
      else if toLowerCase (trim line) = ''test'' then switchMode MODE_TEST s
      else s) \<and>
   ((\<forall>l \<in> set (lines_from [] (serial_rx s)).
        toLowerCase (trim l) \<notin> {''auto'', ''bluetooth'', ''test''}) \<longrightarrow>
      checkModeSwitch s = s\<lparr>serial_rx := []\<rparr>)"
proof (intro conjI)
  show "\<not> Serial_available s \<longrightarrow> checkModeSwitch s = s"
    by (simp add: checkModeSwitch.simps [of s])
  show "serial_rx (checkModeSwitch s) = []"
    by (simp add: checkModeSwitch_lines)
  show "checkModeSwitch s =
      (foldl mode_directive s (lines_from [] (serial_rx s)))\<lparr>serial_rx := []\<rparr>"
    by (rule checkModeSwitch_lines)
  show "mode_directive s line =
     (if toLowerCase (trim line) = ''auto'' then switchMode MODE_AUTO_FOLLOW s
      else if toLowerCase (trim line) = ''bluetooth'' then switchMode MODE_BLUETOOTH s
      else if toLowerCase (trim line) = ''test'' then switchMode MODE_TEST s
      else s)"
    by (simp add: mode_directive_def directive_mode_def)
  show "(\<forall>l \<in> set (lines_from [] (serial_rx s)).
        toLowerCase (trim l) \<notin> {''auto'', ''bluetooth'', ''test''}) \<longrightarrow>
      checkModeSwitch s = s\<lparr>serial_rx := []\<rparr>"
  proof
    assume "\<forall>l \<in> set (lines_from [] (serial_rx s)).
        toLowerCase (trim l) \<notin> {''auto'', ''bluetooth'', ''test''}"
    then have "\<forall>l \<in> set (lines_from [] (serial_rx s)).
        directive_mode (toLowerCase (trim l)) = None"
      by (simp add: directive_mode_def)
    then show "checkModeSwitch s = s\<lparr>serial_rx := []\<rparr>"
      by (simp add: checkModeSwitch_lines foldl_ignored)
  qed
qed


theorem checkModeSwitch_directives_witness:
  "\<not> Serial_available (booted 0) \<and> checkModeSwitch (booted 0) = booted 0 \<and>
   lines_from [] (serial_rx (addressed (''hello'' @ [CHR 0x0A]))) = [''hello''] \<and>
   toLowerCase (trim ''hello'') \<notin> {''auto'', ''bluetooth'', ''test''} \<and>
   checkModeSwitch (addressed (''hello'' @ [CHR 0x0A])) =
     (addressed (''hello'' @ [CHR 0x0A]))\<lparr>serial_rx := []\<rparr> \<and>
   checkModeSwitch (addressed (''  AUTO '' @ [CHR 0x0D, CHR 0x0A])) =
     (switchMode MODE_AUTO_FOLLOW (addressed (''  AUTO '' @ [CHR 0x0D, CHR 0x0A])))
       \<lparr>serial_rx := []\<rparr>"
proof -
  have idle: "\<not> Serial_available (booted 0)"
    by (simp add: Serial_available_def example_defs motor_defs hal_defs Let_def)
  have rx: "\<And>bytes. serial_rx (addressed bytes) = bytes"
    by (simp add: example_defs motor_defs hal_defs Let_def)
  have hello: "lines_from [] (''hello'' @ [CHR 0x0A]) = [''hello'']"
    and shout: "lines_from [] (''  AUTO '' @ [CHR 0x0D, CHR 0x0A]) = [''  AUTO '' @ [CHR 0x0D]]"
    by simp_all
  have token_hello: "toLowerCase (trim ''hello'') = ''hello''"
    by code_simp
  have token_auto: "toLowerCase (trim (''  AUTO '' @ [CHR 0x0D])) = ''auto''"
    by code_simp
  have ignored: "\<forall>l \<in> set (lines_from [] (serial_rx (addressed (''hello'' @ [CHR 0x0A])))).
      toLowerCase (trim l) \<notin> {''auto'', ''bluetooth'', ''test''}"
    by (simp only: rx hello token_hello list.set ball_simps) simp
  have "checkModeSwitch (addressed (''  AUTO '' @ [CHR 0x0D, CHR 0x0A])) =
     (mode_directive (addressed (''  AUTO '' @ [CHR 0x0D, CHR 0x0A])) (''  AUTO '' @ [CHR 0x0D]))
       \<lparr>serial_rx := []\<rparr>"
    using checkModeSwitch_directives [of "addressed (''  AUTO '' @ [CHR 0x0D, CHR 0x0A])"]
    by (simp only: rx shout foldl.simps)
  moreover have "mode_directive (addressed (''  AUTO '' @ [CHR 0x0D, CHR 0x0A]))
       (''  AUTO '' @ [CHR 0x0D]) =
     switchMode MODE_AUTO_FOLLOW (addressed (''  AUTO '' @ [CHR 0x0D, CHR 0x0A]))"
    by (simp only: mode_directive_def directive_mode_def token_auto) simp
  moreover have "checkModeSwitch (booted 0) = booted 0"
    using checkModeSwitch_directives [of "booted 0"] idle by blast
  moreover have "checkModeSwitch (addressed (''hello'' @ [CHR 0x0A])) =
     (addressed (''hello'' @ [CHR 0x0A]))\<lparr>serial_rx := []\<rparr>"
    using checkModeSwitch_directives [of "addressed (''hello'' @ [CHR 0x0A])"] ignored by blast
  ultimately show ?thesis
    using idle rx hello token_hello by simp
qed

end
